theory Spec2Isabelle
  imports Complex_Main "HOL-Library.Sublist"
begin

section \<open>Values, options and library reports\<close>

text \<open>
  The model follows \<^verbatim>\<open>pcs/cluster.py\<close>. A value decoded by \<^verbatim>\<open>json.loads\<close> is a
  \<open>json\<close>; \<open>truthy\<close> is Python's truth test on it. Floats are kept only as finite
  reals, and a decoded object as the list of its items.
\<close>

datatype json =
    JNull
  | JBool bool
  | JInt int
  | JFloat real
  | JStr string
  | JList "json list"
  | JDict "(string \<times> json) list"

fun truthy :: "json \<Rightarrow> bool" where
  "truthy JNull = False"
| "truthy (JBool b) = b"
| "truthy (JInt i) = (i \<noteq> 0)"
| "truthy (JFloat r) = (r \<noteq> 0)"
| "truthy (JStr s) = (s \<noteq> [])"
| "truthy (JList xs) = (xs \<noteq> [])"
| "truthy (JDict kvs) = (kvs \<noteq> [])"

text \<open>\<^verbatim>\<open>utils.pcs_options\<close>: command-line option name to its value.\<close>

type_synonym options = "string \<rightharpoonup> string"

text \<open>\<^verbatim>\<open>str(n)\<close> and \<^verbatim>\<open>"{0}".format(n)\<close> for a non-negative integer.\<close>

fun str_nat :: "nat \<Rightarrow> string" where
  "str_nat n =
     (if n < 10 then [''0123456789'' ! n]
      else str_nat (n div 10) @ [''0123456789'' ! (n mod 10)])"

declare str_nat.simps [simp del]

datatype severity = WARNING | ERROR

text \<open>
  The report items of \<^verbatim>\<open>pcs.lib.reports\<close> that this file creates, one constructor per
  library function, holding the arguments of the call. In \<open>invalid_option_value\<close> the
  severity is \<open>None\<close> where the call leaves it to the library's default; the last
  argument is the force code (\<^verbatim>\<open>report_codes.FORCE_OPTIONS\<close>) or Python's \<^verbatim>\<open>None\<close>.
\<close>

datatype report_item =
    invalid_option_value string string "string list" "severity option" "string option"
  | rrp_addresses_transport_mismatch
  | rrp_active_not_supported bool
  | cman_broadcast_all_rings
  | cman_udpu_restart_required
  | cman_ignored_option string
  | common_info string
  | common_error string

definition FORCE_OPTIONS :: string where
  "FORCE_OPTIONS = ''FORCE_OPTIONS''"

section \<open>Parsing the setup options\<close>

text \<open>
  The dictionaries \<^verbatim>\<open>ring_options\<close> and \<^verbatim>\<open>transport_options\<close> have a fixed set of
  keys with values of different types (strings, \<^verbatim>\<open>True\<close>, a list): each is a record
  with one field per key, \<open>None\<close> where the key is absent.
\<close>

record ring_options =
  addr :: "string option"
  ring_broadcast :: "bool option"
  mcastaddr :: "string option"
  mcastport :: "string option"
  ttl :: "string option"

definition empty_ring_options :: ring_options where
  "empty_ring_options =
     \<lparr> addr = None, ring_broadcast = None, mcastaddr = None, mcastport = None, ttl = None \<rparr>"

record transport_options =
  rings_options :: "ring_options list option"
  transport :: "string option"
  rrp_mode :: "string option"
  ip_version :: "string option"
  broadcast :: "bool option"

text \<open>The result \<^verbatim>\<open>parsed\<close> of the two parsers; the cman parser has no quorum options.\<close>

record parsed_options =
  parsed_transport_options :: transport_options
  parsed_totem_options :: "string \<rightharpoonup> string"
  parsed_quorum_options :: "(string \<rightharpoonup> string) option"

text \<open>
  \<^verbatim>\<open>for opt_name, parsed_name in names.items(): if opt_name in options:
  parsed[parsed_name] = options[opt_name]\<close>
\<close>

definition copy_named_options ::
  "(string \<times> string) list \<Rightarrow> options \<Rightarrow> (string \<rightharpoonup> string)" where
  "copy_named_options names options =
     fold (\<lambda>(opt_name, parsed_name) parsed.
             case options opt_name of
               Some v \<Rightarrow> parsed(parsed_name \<mapsto> v)
             | None \<Rightarrow> parsed)
          names Map.empty"

text \<open>The shared RRP mode block of both parsers (lines 456-473 and 578-595).\<close>

definition parse_rrpmode ::
  "options \<Rightarrow> bool \<Rightarrow> string option \<times> report_item list" where
  "parse_rrpmode options force =
     (let severity = (if force then WARNING else ERROR);
          forceable = (if force then None else Some FORCE_OPTIONS)
      in if options ''--rrpmode'' \<noteq> None \<or> options ''--addr0'' \<noteq> None then
           (let rrpmode = (case options ''--rrpmode'' of Some m \<Rightarrow> m | None \<Rightarrow> ''passive'');
                allowed_rrpmode = [''passive'', ''active''];
                messages =
                  (if rrpmode \<notin> set allowed_rrpmode
                   then [invalid_option_value ''RRP mode'' rrpmode allowed_rrpmode
                           (Some severity) forceable]
                   else [])
                  @ (if rrpmode = ''active'' then [rrp_active_not_supported force] else [])
            in (Some rrpmode, messages))
         else (None, []))"

text \<open>
  The body of the ring loop of the corosync parser (lines 493-511). The lookup
  \<^verbatim>\<open>options["--addr{0}".format(interface)]\<close> is made only for the interfaces of
  \<open>interface_ids_corosync\<close>, whose address option is present.
\<close>

definition ring_options_corosync :: "options \<Rightarrow> nat \<Rightarrow> ring_options" where
  "ring_options_corosync options interface =
     (let i = str_nat interface;
          ring_options = empty_ring_options\<lparr> addr := Some (the (options (''--addr'' @ i))) \<rparr>
      in if options (''--broadcast'' @ i) \<noteq> None then
           ring_options\<lparr> ring_broadcast := Some True \<rparr>
         else
           (let mcastaddr0 =
                  (case options (''--mcast'' @ i) of
                     Some a \<Rightarrow> a
                   | None \<Rightarrow> ''239.255.'' @ str_nat (interface + 1) @ ''.1'');
                ring_options = ring_options\<lparr> mcastaddr := Some mcastaddr0 \<rparr>;
                mcastport0 =
                  (case options (''--mcastport'' @ i) of
                     Some p \<Rightarrow> p
                   | None \<Rightarrow> ''5405'');
                ring_options = ring_options\<lparr> mcastport := Some mcastport0 \<rparr>
            in case options (''--ttl'' @ i) of
                 Some t \<Rightarrow> ring_options\<lparr> ttl := Some t \<rparr>
               | None \<Rightarrow> ring_options))"

definition interface_ids_corosync :: "options \<Rightarrow> nat list" where
  "interface_ids_corosync options =
     (if options ''--addr0'' \<noteq> None
      then [0] @ (if options ''--addr1'' \<noteq> None then [1] else [])
      else [])"

definition cluster_setup_parse_options_corosync ::
  "options \<Rightarrow> bool \<Rightarrow> parsed_options \<times> report_item list" where
  "cluster_setup_parse_options_corosync options force =
     (let severity = (if force then WARNING else ERROR);
          forceable = (if force then None else Some FORCE_OPTIONS);
          allowed_transport = [''udp'', ''udpu''];
          transport = (case options ''--transport'' of Some t \<Rightarrow> t | None \<Rightarrow> ''udpu'');
          messages =
            (if options ''--transport'' \<noteq> None \<and> transport \<notin> set allowed_transport
             then [invalid_option_value ''transport'' transport allowed_transport
                     (Some severity) forceable]
             else []);
          messages = messages @
            (if transport = ''udpu'' \<and> (options ''--addr0'' \<noteq> None \<or> options ''--addr1'' \<noteq> None)
             then [rrp_addresses_transport_mismatch] else []);
          (rrpmode, rrp_messages) = parse_rrpmode options force;
          messages = messages @ rrp_messages;
          totem = copy_named_options
            [(''--token'', ''token''),
             (''--token_coefficient'', ''token_coefficient''),
             (''--join'', ''join''),
             (''--consensus'', ''consensus''),
             (''--miss_count_const'', ''miss_count_const''),
             (''--fail_recv_const'', ''fail_recv_const'')] options;
          rings =
            (if transport = ''udp''
             then map (ring_options_corosync options) (interface_ids_corosync options)
             else []);
          quorum = copy_named_options
            [(''--wait_for_all'', ''wait_for_all''),
             (''--auto_tie_breaker'', ''auto_tie_breaker''),
             (''--last_man_standing'', ''last_man_standing''),
             (''--last_man_standing_window'', ''last_man_standing_window'')] options;
          messages = messages @
            concat (map (\<lambda>opt_name.
                      case options opt_name of
                        Some v \<Rightarrow>
                          if v \<notin> set [''0'', ''1'']
                          then [invalid_option_value opt_name v [''0'', ''1''] None None]
                          else []
                      | None \<Rightarrow> [])
                    [''--wait_for_all'', ''--auto_tie_breaker'', ''--last_man_standing''])
      in (\<lparr> parsed_transport_options =
              \<lparr> rings_options = Some rings,
                transport = Some transport,
                rrp_mode = (if rrpmode \<noteq> None \<and> rrpmode \<noteq> Some [] then rrpmode else None),
                ip_version = (if options ''--ipv6'' \<noteq> None then Some ''ipv6'' else None),
                broadcast = None \<rparr>,
            parsed_totem_options = totem,
            parsed_quorum_options = Some quorum \<rparr>,
          messages))"

text \<open>The body of the ring loop of the cman parser (lines 612-624).\<close>

definition ring_options_cman :: "options \<Rightarrow> nat \<Rightarrow> ring_options" where
  "ring_options_cman options interface =
     (let i = str_nat interface;
          mcastaddr0 =
            (case options (''--mcast'' @ i) of
               Some a \<Rightarrow> a
             | None \<Rightarrow> ''239.255.'' @ str_nat (interface + 1) @ ''.1'');
          ring_options = empty_ring_options\<lparr> mcastaddr := Some mcastaddr0 \<rparr>;
          ring_options =
            (case options (''--mcastport'' @ i) of
               Some p \<Rightarrow> ring_options\<lparr> mcastport := Some p \<rparr>
             | None \<Rightarrow> ring_options)
      in case options (''--ttl'' @ i) of
           Some t \<Rightarrow> ring_options\<lparr> ttl := Some t \<rparr>
         | None \<Rightarrow> ring_options)"

definition cluster_setup_parse_options_cman ::
  "options \<Rightarrow> bool \<Rightarrow> parsed_options \<times> report_item list" where
  "cluster_setup_parse_options_cman options force =
     (let severity = (if force then WARNING else ERROR);
          forceable = (if force then None else Some FORCE_OPTIONS);
          is_broadcast = (options ''--broadcast0'' \<noteq> None \<or> options ''--broadcast1'' \<noteq> None);
          allowed_transport = [''udp'', ''udpu''];
          transport =
            (if is_broadcast then ''udpb''
             else case options ''--transport'' of Some t \<Rightarrow> t | None \<Rightarrow> ''udp'');
          messages =
            (if is_broadcast then
               (if options ''--broadcast0'' = None \<or> options ''--broadcast1'' = None
                then [cman_broadcast_all_rings] else [])
             else
               (if options ''--transport'' \<noteq> None \<and> transport \<notin> set allowed_transport
                then [invalid_option_value ''transport'' transport allowed_transport
                        (Some severity) forceable]
                else []));
          messages = messages @
            (if transport = ''udpu'' then [cman_udpu_restart_required] else []);
          messages = messages @
            (if transport = ''udpu'' \<and> (options ''--addr0'' \<noteq> None \<or> options ''--addr1'' \<noteq> None)
             then [rrp_addresses_transport_mismatch] else []);
          (rrpmode, rrp_messages) = parse_rrpmode options force;
          messages = messages @ rrp_messages;
          totem = copy_named_options
            [(''--token'', ''token''),
             (''--join'', ''join''),
             (''--consensus'', ''consensus''),
             (''--miss_count_const'', ''miss_count_const''),
             (''--fail_recv_const'', ''fail_recv_const'')] options;
          rings =
            (if \<not> is_broadcast
             then map (ring_options_cman options)
                    (filter (\<lambda>interface. options (''--addr'' @ str_nat interface) \<noteq> None) [0, 1])
             else []);
          messages = messages @
            concat (map (\<lambda>opt_name.
                      if options opt_name \<noteq> None then [cman_ignored_option opt_name] else [])
                    [''--wait_for_all'', ''--auto_tie_breaker'', ''--last_man_standing'',
                     ''--last_man_standing_window'', ''--token_coefficient'', ''--ipv6''])
      in (\<lparr> parsed_transport_options =
              \<lparr> rings_options = Some rings,
                transport = Some transport,
                rrp_mode = (if rrpmode \<noteq> None \<and> rrpmode \<noteq> Some [] then rrpmode else None),
                ip_version = None,
                broadcast = (if is_broadcast then Some True else None) \<rparr>,
            parsed_totem_options = totem,
            parsed_quorum_options = None \<rparr>,
          messages))"

section \<open>The structured configuration\<close>

text \<open>
  \<^verbatim>\<open>corosync_conf_utils.Section\<close> (pcs.lib.corosync.config_parser) is a mutable tree
  node: a name, its attributes in insertion order, its sub-sections in insertion order.
  An attribute value is a string or an integer.
\<close>

datatype pyval = PInt int | PStr string

datatype conf_section =
  Section (sec_name: string) (sec_attrs: "(string \<times> pyval) list") (sec_sections: "conf_section list")

text \<open>
  The builder attaches every section to its parent right after creating it and then
  keeps filling it through the Python variable that refers to it. The store is the
  root section; a reference to an attached section is its path, the positions of the
  sub-sections to follow from the root. \<open>add_section\<close> returns the reference to the
  attached section together with the new store.
\<close>

type_synonym section_ref = "nat list"

fun get_at :: "section_ref \<Rightarrow> conf_section \<Rightarrow> conf_section" where
  "get_at [] s = s"
| "get_at (i # p) (Section name attrs sections) = get_at p (sections ! i)"

fun modify_at :: "section_ref \<Rightarrow> (conf_section \<Rightarrow> conf_section) \<Rightarrow> conf_section \<Rightarrow> conf_section" where
  "modify_at [] f s = f s"
| "modify_at (i # p) f (Section name attrs sections) =
     Section name attrs (sections[i := modify_at p f (sections ! i)])"

definition add_attribute :: "section_ref \<Rightarrow> string \<Rightarrow> pyval \<Rightarrow> conf_section \<Rightarrow> conf_section" where
  "add_attribute r name v conf =
     modify_at r (\<lambda>s. Section (sec_name s) (sec_attrs s @ [(name, v)]) (sec_sections s)) conf"

definition add_section :: "section_ref \<Rightarrow> conf_section \<Rightarrow> conf_section \<Rightarrow> section_ref \<times> conf_section" where
  "add_section r child conf =
     (r @ [length (sec_sections (get_at r conf))],
      modify_at r (\<lambda>s. Section (sec_name s) (sec_attrs s) (sec_sections s @ [child])) conf)"

text \<open>\<^verbatim>\<open>transport_options[opt_name]\<close> and \<^verbatim>\<open>ring_options[opt_name]\<close> for a key given by name.\<close>

definition transport_option :: "transport_options \<Rightarrow> string \<Rightarrow> string option" where
  "transport_option t opt_name =
     (if opt_name = ''transport'' then transport t
      else if opt_name = ''rrp_mode'' then rrp_mode t
      else if opt_name = ''ip_version'' then ip_version t
      else None)"

definition ring_option :: "ring_options \<Rightarrow> string \<Rightarrow> string option" where
  "ring_option r opt_name =
     (if opt_name = ''addr'' then addr r
      else if opt_name = ''mcastaddr'' then mcastaddr r
      else if opt_name = ''mcastport'' then mcastport r
      else if opt_name = ''ttl'' then ttl r
      else None)"

text \<open>
  \<^verbatim>\<open>for opt_name in names: if opt_name in d: sec.add_attribute(opt_name, d[opt_name])\<close>
\<close>

definition add_named_attributes ::
  "section_ref \<Rightarrow> string list \<Rightarrow> (string \<Rightarrow> string option) \<Rightarrow> conf_section \<Rightarrow> conf_section" where
  "add_named_attributes r names d conf =
     fold (\<lambda>opt_name c.
             case d opt_name of
               Some v \<Rightarrow> add_attribute r opt_name (PStr v) c
             | None \<Rightarrow> c)
          names conf"

type_synonym node_options = "string \<rightharpoonup> string"

text \<open>The body of the interface loop (lines 685-703) and of the node loop (lines 705-711).\<close>

definition add_interface ::
  "section_ref \<Rightarrow> nat \<times> ring_options \<Rightarrow> conf_section \<Rightarrow> conf_section" where
  "add_interface totem_section = (\<lambda>(ring_number, ring_options) corosync_conf.
     (let (interface_section, corosync_conf) =
            add_section totem_section (Section ''interface'' [] []) corosync_conf;
          corosync_conf =
            add_attribute interface_section ''ringnumber'' (PInt (int ring_number)) corosync_conf;
          corosync_conf =
            (case addr ring_options of
               Some a \<Rightarrow> add_attribute interface_section ''bindnetaddr'' (PStr a) corosync_conf
             | None \<Rightarrow> corosync_conf)
      in if ring_broadcast ring_options = Some True
         then add_attribute interface_section ''broadcast'' (PStr ''yes'') corosync_conf
         else add_named_attributes interface_section [''mcastaddr'', ''mcastport'', ''ttl'']
                (ring_option ring_options) corosync_conf))"

definition add_node ::
  "section_ref \<Rightarrow> nat \<times> node_options \<Rightarrow> conf_section \<Rightarrow> conf_section" where
  "add_node nodelist_section = (\<lambda>(node_id, node_options) corosync_conf.
     (let (node_section, corosync_conf) =
            add_section nodelist_section (Section ''node'' [] []) corosync_conf;
          corosync_conf =
            add_named_attributes node_section [''ring0_addr'', ''ring1_addr'']
              node_options corosync_conf
      in add_attribute node_section ''nodeid'' (PInt (int node_id)) corosync_conf))"

text \<open>
  \<open>corosync_conf_tree\<close> is \<^verbatim>\<open>cluster_setup_create_corosync_conf\<close> up to its last line:
  the tree that the function hands to \<^verbatim>\<open>str\<close>.
\<close>

definition corosync_conf_tree ::
  "string \<Rightarrow> node_options list \<Rightarrow> transport_options \<Rightarrow> (string \<rightharpoonup> string)
     \<Rightarrow> (string \<rightharpoonup> string) \<Rightarrow> conf_section" where
  "corosync_conf_tree cluster_name node_list transport_options totem_options quorum_options =
     (let corosync_conf = Section [] [] [];
          (totem_section, corosync_conf) = add_section [] (Section ''totem'' [] []) corosync_conf;
          (nodelist_section, corosync_conf) =
            add_section [] (Section ''nodelist'' [] []) corosync_conf;
          (quorum_section, corosync_conf) = add_section [] (Section ''quorum'' [] []) corosync_conf;
          (logging_section, corosync_conf) =
            add_section [] (Section ''logging'' [] []) corosync_conf;
          corosync_conf = add_attribute totem_section ''version'' (PStr ''2'') corosync_conf;
          corosync_conf = add_attribute totem_section ''secauth'' (PStr ''off'') corosync_conf;
          corosync_conf =
            add_attribute totem_section ''cluster_name'' (PStr cluster_name) corosync_conf;
          corosync_conf =
            add_named_attributes totem_section [''transport'', ''rrp_mode'', ''ip_version'']
              (transport_option transport_options) corosync_conf;
          corosync_conf =
            add_named_attributes totem_section
              [''token'', ''token_coefficient'', ''join'', ''consensus'',
               ''miss_count_const'', ''fail_recv_const'']
              totem_options corosync_conf;
          corosync_conf =
            (if transport transport_options = Some ''udp'' then
               (case rings_options transport_options of
                  Some rings \<Rightarrow> fold (add_interface totem_section) (enumerate 0 rings) corosync_conf
                | None \<Rightarrow> corosync_conf)
             else corosync_conf);
          corosync_conf = fold (add_node nodelist_section) (enumerate 1 node_list) corosync_conf;
          corosync_conf =
            add_attribute quorum_section ''provider'' (PStr ''corosync_votequorum'') corosync_conf;
          corosync_conf =
            add_named_attributes quorum_section
              [''wait_for_all'', ''auto_tie_breaker'', ''last_man_standing'',
               ''last_man_standing_window'']
              quorum_options corosync_conf;
          auto_tie_breaker = (quorum_options ''auto_tie_breaker'' = Some ''1'');
          corosync_conf =
            (if length node_list = 2 \<and> \<not> auto_tie_breaker
             then add_attribute quorum_section ''two_node'' (PStr ''1'') corosync_conf
             else corosync_conf);
          corosync_conf = add_attribute logging_section ''to_logfile'' (PStr ''yes'') corosync_conf;
          corosync_conf =
            add_attribute logging_section ''logfile'' (PStr ''/var/log/cluster/corosync.log'')
              corosync_conf
      in add_attribute logging_section ''to_syslog'' (PStr ''yes'') corosync_conf)"

text \<open>
  Modelled from the spec: the export method of the section class, which \<^verbatim>\<open>str\<close> calls,
  is not part of this file. An attribute is rendered as a line \<^verbatim>\<open>key: value\<close>, the
  attributes in insertion order; a nested section is rendered as a block: the line
  \<^verbatim>\<open>name {\<close>, its attribute lines, the blocks of its sub-sections in insertion order,
  and the line \<^verbatim>\<open>}\<close>. The root section has no name and no block of its own: its text
  is made of its attribute lines and of the blocks of the top-level sections. Every
  line ends with a newline. An integer value is written in decimal.
\<close>

definition str_int :: "int \<Rightarrow> string" where
  "str_int i = (if i < 0 then ''-'' @ str_nat (nat (- i)) else str_nat (nat i))"

fun str_pyval :: "pyval \<Rightarrow> string" where
  "str_pyval (PInt i) = str_int i"
| "str_pyval (PStr s) = s"

definition attr_line :: "string \<times> pyval \<Rightarrow> string" where
  "attr_line = (\<lambda>(name, v). name @ '': '' @ str_pyval v)"

fun section_lines :: "conf_section \<Rightarrow> string list" where
  "section_lines (Section name attrs sections) =
     [name @ '' {''] @ map attr_line attrs @ concat (map section_lines sections) @ [''}'']"

definition text_of_lines :: "string list \<Rightarrow> string" where
  "text_of_lines ls = concat (map (\<lambda>l. l @ [CHR 0x0A]) ls)"

definition section_str :: "conf_section \<Rightarrow> string" where
  "section_str conf =
     text_of_lines (map attr_line (sec_attrs conf) @ concat (map section_lines (sec_sections conf)))"

text \<open>
  The last line of \<^verbatim>\<open>cluster_setup_create_corosync_conf\<close> renders the tree with
  \<^verbatim>\<open>str\<close>. The function creates no report.
\<close>

definition cluster_setup_create_corosync_conf ::
  "string \<Rightarrow> node_options list \<Rightarrow> transport_options
     \<Rightarrow> (string \<rightharpoonup> string) \<Rightarrow> (string \<rightharpoonup> string) \<Rightarrow> string \<times> report_item list" where
  "cluster_setup_create_corosync_conf cluster_name node_list transport_options totem_options
       quorum_options =
     (section_str (corosync_conf_tree cluster_name node_list transport_options totem_options
                     quorum_options),
      [])"

text \<open>What the builder leaves in the tree, section by section.\<close>

definition named_attrs ::
  "string list \<Rightarrow> (string \<Rightarrow> string option) \<Rightarrow> (string \<times> pyval) list" where
  "named_attrs names d =
     concat (map (\<lambda>opt_name. case d opt_name of Some v \<Rightarrow> [(opt_name, PStr v)] | None \<Rightarrow> [])
               names)"

definition append_attrs :: "(string \<times> pyval) list \<Rightarrow> conf_section \<Rightarrow> conf_section" where
  "append_attrs new s = Section (sec_name s) (sec_attrs s @ new) (sec_sections s)"

definition node_section_of :: "nat \<times> node_options \<Rightarrow> conf_section" where
  "node_section_of = (\<lambda>(node_id, node_options).
     Section ''node''
       (named_attrs [''ring0_addr'', ''ring1_addr''] node_options
        @ [(''nodeid'', PInt (int node_id))])
       [])"

definition interface_section_of :: "nat \<times> ring_options \<Rightarrow> conf_section" where
  "interface_section_of = (\<lambda>(ring_number, ring_options).
     Section ''interface''
       ([(''ringnumber'', PInt (int ring_number))]
        @ (case addr ring_options of Some a \<Rightarrow> [(''bindnetaddr'', PStr a)] | None \<Rightarrow> [])
        @ (if ring_broadcast ring_options = Some True
           then [(''broadcast'', PStr ''yes'')]
           else named_attrs [''mcastaddr'', ''mcastport'', ''ttl''] (ring_option ring_options)))
       [])"

definition totem_section_of ::
  "string \<Rightarrow> transport_options \<Rightarrow> (string \<rightharpoonup> string) \<Rightarrow> conf_section" where
  "totem_section_of cluster_name t totem =
     Section ''totem''
       ([(''version'', PStr ''2''), (''secauth'', PStr ''off''),
         (''cluster_name'', PStr cluster_name)]
        @ named_attrs [''transport'', ''rrp_mode'', ''ip_version''] (transport_option t)
        @ named_attrs [''token'', ''token_coefficient'', ''join'', ''consensus'',
                       ''miss_count_const'', ''fail_recv_const''] totem)
       (if transport t = Some ''udp''
        then (case rings_options t of
                Some rings \<Rightarrow> map interface_section_of (enumerate 0 rings)
              | None \<Rightarrow> [])
        else [])"

definition quorum_section_of :: "node_options list \<Rightarrow> (string \<rightharpoonup> string) \<Rightarrow> conf_section" where
  "quorum_section_of node_list quorum =
     Section ''quorum''
       ([(''provider'', PStr ''corosync_votequorum'')]
        @ named_attrs [''wait_for_all'', ''auto_tie_breaker'', ''last_man_standing'',
                       ''last_man_standing_window''] quorum
        @ (if length node_list = 2 \<and> quorum ''auto_tie_breaker'' \<noteq> Some ''1''
           then [(''two_node'', PStr ''1'')] else []))
       []"

definition logging_section_of :: conf_section where
  "logging_section_of =
     Section ''logging''
       [(''to_logfile'', PStr ''yes''), (''logfile'', PStr ''/var/log/cluster/corosync.log''),
        (''to_syslog'', PStr ''yes'')]
       []"

text \<open>The lines of the rendered text that a node of the list gives.\<close>

definition node_lines :: "nat \<times> node_options \<Rightarrow> string list" where
  "node_lines = (\<lambda>(node_id, node_options).
     [''node {'']
     @ (case node_options ''ring0_addr'' of Some a \<Rightarrow> [''ring0_addr: '' @ a] | None \<Rightarrow> [])
     @ (case node_options ''ring1_addr'' of Some a \<Rightarrow> [''ring1_addr: '' @ a] | None \<Rightarrow> [])
     @ [''nodeid: '' @ str_nat node_id, ''}''])"

section \<open>The cman command sequence\<close>

record command =
  cmd :: "string list"
  err :: string

text \<open>The body of the node loop of \<^verbatim>\<open>cluster_setup_create_cluster_conf\<close> (lines 768-795).\<close>

definition node_commands :: "node_options \<Rightarrow> command list" where
  "node_commands node_options =
     (case node_options ''ring0_addr'' of
        None \<Rightarrow> []
      | Some ring0_addr \<Rightarrow>
          [\<lparr> cmd = [''--addnode'', ring0_addr],
             err = ''error adding node: '' @ ring0_addr \<rparr>]
          @ (case node_options ''ring1_addr'' of
               Some ring1_addr \<Rightarrow>
                 [\<lparr> cmd = [''--addalt'', ring0_addr, ring1_addr],
                    err = ''error adding alternative address for node: '' @ ring0_addr \<rparr>]
             | None \<Rightarrow> [])
          @ [\<lparr> cmd = [''-i'', ''--addmethod'', ''pcmk-method'', ring0_addr],
               err = ''error adding fence method: '' @ ring0_addr \<rparr>,
             \<lparr> cmd = [''-i'', ''--addfenceinst'', ''pcmk-redirect'', ring0_addr,
                      ''pcmk-method'', ''port='' @ ring0_addr],
               err = ''error adding fence instance: '' @ ring0_addr \<rparr>])"

text \<open>The body of the ring loop (lines 799-816).\<close>

definition ring_command :: "nat \<times> ring_options \<Rightarrow> command" where
  "ring_command = (\<lambda>(ring_number, ring_options).
     (let mcast_options =
            (case mcastaddr ring_options of Some a \<Rightarrow> [a] | None \<Rightarrow> [])
            @ (case mcastport ring_options of Some p \<Rightarrow> [''port='' @ p] | None \<Rightarrow> [])
            @ (case ttl ring_options of Some t \<Rightarrow> [''ttl='' @ t] | None \<Rightarrow> []);
          cmd_name = (if ring_number = 0 then ''--setmulticast'' else ''--setaltmulticast'')
      in \<lparr> cmd = [cmd_name] @ mcast_options,
           err = ''error adding ring'' @ str_nat ring_number @ '' settings'' \<rparr>))"

text \<open>The \<^verbatim>\<open>--setcman\<close> command (lines 756-766).\<close>

definition setcman_command :: "node_options list \<Rightarrow> transport_options \<Rightarrow> command" where
  "setcman_command node_list transport_options =
     (let is_broadcast = (broadcast transport_options = Some True);
          cman_opts =
            (case transport transport_options of
               Some t \<Rightarrow> [''transport='' @ t]
             | None \<Rightarrow> [])
            @ [''broadcast='' @ (if is_broadcast then ''yes'' else ''no'')]
            @ (if length node_list = 2 then [''two_node=1'', ''expected_votes=1''] else [])
      in \<lparr> cmd = [''--setcman''] @ cman_opts, err = ''error setting cman options'' \<rparr>)"

text \<open>The list \<^verbatim>\<open>commands\<close> as it stands at line 840.\<close>

definition cluster_conf_commands ::
  "string \<Rightarrow> node_options list \<Rightarrow> transport_options \<Rightarrow> (string \<rightharpoonup> string) \<Rightarrow> command list" where
  "cluster_conf_commands cluster_name node_list transport_options totem_options =
     (let is_broadcast = (broadcast transport_options = Some True);
          commands =
            [\<lparr> cmd = [''-i'', ''--createcluster'', cluster_name],
               err = ''error creating cluster: '' @ cluster_name \<rparr>,
             \<lparr> cmd = [''-i'', ''--addfencedev'', ''pcmk-redirect'', ''agent=fence_pcmk''],
               err = ''error creating fence dev: '' @ cluster_name \<rparr>];
          commands = commands @ [setcman_command node_list transport_options];
          commands = commands @ concat (map node_commands node_list);
          commands = commands @
            (if \<not> is_broadcast then
               (case rings_options transport_options of
                  Some rings \<Rightarrow> map ring_command (enumerate 0 rings)
                | None \<Rightarrow> [])
             else []);
          totem_cmd_options =
            concat (map (\<lambda>opt_name.
                      case totem_options opt_name of
                        Some v \<Rightarrow> [opt_name @ ''='' @ v]
                      | None \<Rightarrow> [])
                    [''token'', ''join'', ''consensus'', ''miss_count_const'',
                     ''fail_recv_const''])
            @ (case rrp_mode transport_options of
                 Some m \<Rightarrow> [''rrp_mode='' @ m]
               | None \<Rightarrow> [])
      in commands @
         (if totem_cmd_options \<noteq> []
          then [\<lparr> cmd = [''--settotem''] @ totem_cmd_options,
                  err = ''error setting totem options'' \<rparr>]
          else []))"

text \<open>
  The loop that runs the commands (lines 845-852): \<open>Some messages\<close> when a command
  fails and the function returns early. \<open>run\<close> is \<^verbatim>\<open>utils.run\<close>, giving output and
  return value.
\<close>

fun run_commands ::
  "(string list \<Rightarrow> string \<times> int) \<Rightarrow> string list \<Rightarrow> command list \<Rightarrow> report_item list option" where
  "run_commands run cmd_prefix [] = None"
| "run_commands run cmd_prefix (cmd_item # rest) =
     (let (output, retval) = run (cmd_prefix @ cmd cmd_item)
      in if retval \<noteq> 0
         then Some ((if output \<noteq> [] then [common_info output] else [])
                    @ [common_error (err cmd_item)])
         else run_commands run cmd_prefix rest)"

text \<open>
  \<open>conf_path\<close> is the name of the temporary file and \<open>cluster_conf\<close> what is read back
  from it once every command has succeeded.
\<close>

definition cluster_setup_create_cluster_conf ::
  "(string list \<Rightarrow> string \<times> int) \<Rightarrow> string \<Rightarrow> string \<Rightarrow> string \<Rightarrow> node_options list
     \<Rightarrow> transport_options \<Rightarrow> (string \<rightharpoonup> string) \<Rightarrow> string \<times> report_item list" where
  "cluster_setup_create_cluster_conf run conf_path cluster_conf cluster_name node_list
       transport_options totem_options =
     (case run_commands run [''ccs'', ''-f'', conf_path]
             (cluster_conf_commands cluster_name node_list transport_options totem_options) of
        Some messages \<Rightarrow> ([], messages)
      | None \<Rightarrow> (cluster_conf, []))"

section \<open>Cluster setup: node addresses and options\<close>

text \<open>
  \<^verbatim>\<open>cluster_setup\<close> from its first line to line 299, for the node arguments
  \<^verbatim>\<open>argv[1:]\<close>: the exit with the usage text when there is none, the node list, the
  address checks, the parser of the active substrate and the RRP default. \<open>Inl\<close> is
  that exit or the message of a fatal \<^verbatim>\<open>utils.err\<close>. \<open>parse_multiring_node\<close> (\<^verbatim>\<open>utils\<close>) splits a node argument into its ring 0
  address and its ring 1 address, if any; \<open>resolvable\<close> tells whether
  \<^verbatim>\<open>socket.getaddrinfo\<close> succeeds. The warnings printed for the addresses that do not
  resolve are left out.
\<close>

datatype setup_failure = Usage | SetupError string

definition node_options_of :: "string \<times> string option \<Rightarrow> node_options" where
  "node_options_of = (\<lambda>(addr0, addr1).
     (case addr1 of
        Some a1 \<Rightarrow> if a1 \<noteq> [] then [''ring0_addr'' \<mapsto> addr0, ''ring1_addr'' \<mapsto> a1]
                   else [''ring0_addr'' \<mapsto> addr0]
      | None \<Rightarrow> [''ring0_addr'' \<mapsto> addr0]))"

definition has_ring1 :: "string \<times> string option \<Rightarrow> bool" where
  "has_ring1 = (\<lambda>(addr0, addr1). addr1 \<noteq> None \<and> addr1 \<noteq> Some [])"

definition all_addr_list_of :: "string \<times> string option \<Rightarrow> string list" where
  "all_addr_list_of = (\<lambda>(addr0, addr1).
     (case addr1 of
        Some a1 \<Rightarrow> if a1 \<noteq> [] then [addr0, a1] else [addr0]
      | None \<Rightarrow> [addr0]))"

definition cluster_setup_options ::
  "(string \<Rightarrow> string \<times> string option) \<Rightarrow> (string \<Rightarrow> bool) \<Rightarrow> bool \<Rightarrow> options \<Rightarrow> string list
     \<Rightarrow> setup_failure + (node_options list \<times> parsed_options \<times> report_item list)" where
  "cluster_setup_options parse_multiring_node resolvable is_rhel6 pcs_options nodes =
     (let addr_lists = map parse_multiring_node nodes;
          udpu_rrp = (\<exists>a \<in> set addr_lists. has_ring1 a);
          node_list = map node_options_of addr_lists;
          all_addr_list = concat (map all_addr_list_of addr_lists);
          node_list =
            (case pcs_options ''--addr1'' of
               Some addr1 \<Rightarrow>
                 if is_rhel6 \<and> \<not> udpu_rrp
                 then map (\<lambda>node. node(''ring1_addr'' \<mapsto> addr1)) node_list
                 else node_list
             | None \<Rightarrow> node_list)
      in if nodes = [] then Inl Usage
         else if udpu_rrp
                 \<and> (\<exists>node_options \<in> set node_list. node_options ''ring1_addr'' = None) then
           Inl (SetupError
                  ''if one node is configured for RRP, all nodes must be configured for RRP'')
         else if (\<exists>node_addr \<in> set all_addr_list. \<not> resolvable node_addr)
                 \<and> pcs_options ''--force'' = None then
           Inl (SetupError ''Unable to resolve all hostnames, use --force to override'')
         else
           (let (options, messages) =
                  (if is_rhel6
                   then cluster_setup_parse_options_cman pcs_options
                          (pcs_options ''--force'' \<noteq> None)
                   else cluster_setup_parse_options_corosync pcs_options
                          (pcs_options ''--force'' \<noteq> None));
                options =
                  (if udpu_rrp \<and> rrp_mode (parsed_transport_options options) = None
                   then options\<lparr> parsed_transport_options :=
                          (parsed_transport_options options)\<lparr> rrp_mode := Some ''passive'' \<rparr> \<rparr>
                   else options)
            in Inr (node_list, options, messages)))"

section \<open>Waiting for a node to start\<close>

text \<open>
  \<^verbatim>\<open>is_node_fully_started\<close> on a status dictionary. Python's \<^verbatim>\<open>and\<close> gives back the
  first falsy operand, so the result is a value: \<^verbatim>\<open>False\<close> from a failed key test, the
  falsy \<^verbatim>\<open>online\<close> value itself, or the Boolean \<^verbatim>\<open>not node_status["pending"]\<close>.
\<close>

definition is_node_fully_started :: "(string \<rightharpoonup> json) \<Rightarrow> json" where
  "is_node_fully_started node_status =
     (case node_status ''online'' of
        None \<Rightarrow> JBool False
      | Some online \<Rightarrow>
          (case node_status ''pending'' of
             None \<Rightarrow> JBool False
           | Some pending \<Rightarrow>
               if truthy online then JBool (\<not> truthy pending) else online))"

text \<open>
  The waiter applies the predicate to whatever \<^verbatim>\<open>json.loads\<close> gave. On a string or a list
  \<^verbatim>\<open>in\<close> is a substring or membership test and the subscript \<^verbatim>\<open>status["online"]\<close>
  raises \<^verbatim>\<open>TypeError\<close>; on a number, a Boolean or \<^verbatim>\<open>None\<close> the test \<^verbatim>\<open>in\<close> raises it.
\<close>

datatype py_error = TypeError

definition is_node_fully_started_value :: "json \<Rightarrow> py_error + json" where
  "is_node_fully_started_value status =
     (case status of
        JDict items \<Rightarrow> Inr (is_node_fully_started (map_of items))
      | JStr s \<Rightarrow>
          if sublist ''online'' s \<and> sublist ''pending'' s then Inl TypeError
          else Inr (JBool False)
      | JList xs \<Rightarrow>
          if JStr ''online'' \<in> set xs \<and> JStr ''pending'' \<in> set xs then Inl TypeError
          else Inr (JBool False)
      | _ \<Rightarrow> Inl TypeError)"

text \<open>
  A waiter returns a pair of a code and a text, or an exception that nothing catches
  leaves it.
\<close>

datatype wait_result = Returned int string | Raised py_error

text \<open>\<^verbatim>\<open>sep.join(xs)\<close>\<close>

fun join :: "string \<Rightarrow> string list \<Rightarrow> string" where
  "join sep [] = []"
| "join sep [x] = x"
| "join sep (x # y # ys) = x @ sep @ join sep (y # ys)"

text \<open>
  The world of a waiter, indexed by the turn of its loop: what the status query of turn
  \<open>i\<close> answers and what \<^verbatim>\<open>datetime.datetime.now()\<close> reads in turn \<open>i\<close>. Time is counted
  in ticks. \<open>json_loads\<close> is \<open>None\<close> where \<^verbatim>\<open>json.loads\<close> raises \<^verbatim>\<open>ValueError\<close>;
  \<open>get_local_node_status\<close> is \<open>Inl\<close> the messages of the report items where the library
  raises \<^verbatim>\<open>LibraryError\<close>.
\<close>

record waiter_env =
  getPacemakerNodeStatus :: "nat \<Rightarrow> int \<times> string"
  json_loads :: "string \<Rightarrow> json option"
  get_local_node_status :: "nat \<Rightarrow> string list + (string \<rightharpoonup> json)"
  now :: "nat \<Rightarrow> int"

text \<open>
  One turn of \<^verbatim>\<open>wait_for_remote_node_started\<close> (lines 950-964) and of
  \<^verbatim>\<open>wait_for_local_node_started\<close> (lines 935-941): \<open>Some r\<close> when the turn returns
  \<open>r\<close>, \<open>None\<close> when it reaches \<^verbatim>\<open>time.sleep(interval)\<close>.
\<close>

definition remote_turn :: "waiter_env \<Rightarrow> int \<Rightarrow> nat \<Rightarrow> wait_result option" where
  "remote_turn env stop_at i =
     (let (code, output) = getPacemakerNodeStatus env i;
          deadline = (if now env i > stop_at then Some (Returned 1 ''Waiting timeout'') else None)
      in if code \<in> {1, 3, 4} then Some (Returned 1 output)
         else if code = 0 then
           (case json_loads env output of
              None \<Rightarrow> Some (Returned 1 ''Unable to get node status'')
            | Some status \<Rightarrow>
                (case is_node_fully_started_value status of
                   Inl e \<Rightarrow> Some (Raised e)
                 | Inr started \<Rightarrow>
                     if truthy started then Some (Returned 0 ''Started'') else deadline))
         else deadline)"

definition local_turn :: "waiter_env \<Rightarrow> int \<Rightarrow> nat \<Rightarrow> wait_result option" where
  "local_turn env stop_at i =
     (case get_local_node_status env i of
        Inl messages \<Rightarrow>
          Some (Returned 1 (''Unable to get node status: '' @ join [CHR 0x0A] messages))
      | Inr node_status \<Rightarrow>
          if truthy (is_node_fully_started node_status) then Some (Returned 0 ''Started'')
          else if now env i > stop_at then Some (Returned 1 ''Waiting timeout'')
          else None)"




section \<open>Stopping, adding and removing nodes\<close>

text \<open>
  What a run does to the outside is the list of its events, in the order of the calls;
  it ends by returning, by a fatal \<^verbatim>\<open>utils.err\<close>, or by the exit that
  \<^verbatim>\<open>process_library_reports\<close> makes on an error report (\<open>ReportsExit\<close>).

  Modelled from the spec: \<^verbatim>\<open>utils.err\<close> is not part of this file. A fatal error prints
  its message and ends the run with a non-zero exit code (\<open>Fatal\<close>);
  \<^verbatim>\<open>utils.err(msg, False)\<close> prints the message and goes on (the event \<open>Err\<close>).
\<close>

datatype action = stopPacemaker | stopCorosync | destroyCluster

datatype event =
    Fanout action "string list"
  | QuorumQuery string
  | CheckAuthorization string
  | RunCmd "string list"
  | RemoveLocalNode string string
  | AddLocalNode string string "string option"
  | ReloadCorosync
  | SendLocalConfigs "string list"
  | QdeviceCertificates string
  | SetCorosyncConfig string string
  | EnableCluster string
  | StartCluster string
  | SyncCerts "string list"
  | WaitForNodesStarted "string list"
  | Print string
  | Err string

datatype outcome = Completed | Fatal string | ReportsExit

type_synonym run = "event list \<times> outcome"

text \<open>Sequencing: the second part runs only if the first did not end the run.\<close>

definition and_then :: "run \<Rightarrow> run \<Rightarrow> run" where
  "and_then first second =
     (case snd first of
        Completed \<Rightarrow> (fst first @ fst second, snd second)
      | _ \<Rightarrow> first)"

text \<open>
  \<^verbatim>\<open>output.strip()\<close> on a text whose characters are the code points below 256: the
  white space of Python 3 among them is the blank, the code points 9 to 13 and 28 to 31,
  the next-line character 133 and the no-break space 160.
\<close>

definition is_space :: "char \<Rightarrow> bool" where
  "is_space c =
     (c \<in> set [CHR '' '', CHR 0x09, CHR 0x0A, CHR 0x0B, CHR 0x0C, CHR 0x0D,
                CHR 0x1C, CHR 0x1D, CHR 0x1E, CHR 0x1F, CHR 0x85, CHR 0xA0])"

definition strip :: "string \<Rightarrow> string" where
  "strip s = rev (dropWhile is_space (rev (dropWhile is_space s)))"

text \<open>
  The functions of \<^verbatim>\<open>utils\<close> and of the libraries that the runs call, as answers given
  by the environment. \<open>'q\<close> is the quorum information that the two parsers of the
  quorum tool's output give (\<open>None\<close> where they give nothing); \<open>quorate\<close> reads its entry
  \<^verbatim>\<open>"quorate"\<close>. \<open>node_action\<close> is \<^verbatim>\<open>utils.stopPacemaker\<close>, \<^verbatim>\<open>utils.stopCorosync\<close> or
  \<^verbatim>\<open>utils.destroyCluster\<close> on one node. \<open>removeLocalNode\<close> is \<open>Inl\<close> the output when its
  return value is not 0, else \<open>Inr\<close> the decoded pair. \<open>set_qdevice_net_certificates\<close>
  stands for lines 1493-1507 (\<open>True\<close> when they end the run) and \<open>nodes_started\<close> for the
  success of \<^verbatim>\<open>wait_for_nodes_started\<close>. \<open>set_iteration\<close> is the order in which Python
  goes through the set of the given distinct strings. \<open>checkAuthorization\<close> gives a
  status and an output, and \<open>parse_multiring_node\<close> the ring 0 address of a node
  argument and its ring 1 address, if any.
\<close>

record pcsd_output =
  pcsd_status :: string
  pcsd_data :: "(string \<times> string) list"

record 'q env =
  pcs_options :: options
  is_rhel6 :: bool
  is_systemctl :: bool
  is_cman_cluster :: bool
  need_to_handle_qdevice_service :: bool
  is_cman_with_udpu_transport :: bool
  getNodesFromCorosyncConf :: "string list"
  get_remote_quorumtool_output :: "string \<Rightarrow> int \<times> string"
  parse_cman_quorum_info :: "string \<Rightarrow> 'q option"
  parse_quorumtool_output :: "string \<Rightarrow> 'q option"
  quorate :: "'q \<Rightarrow> bool"
  is_node_stop_cause_quorum_loss :: "'q \<Rightarrow> bool \<Rightarrow> string list option \<Rightarrow> bool"
  is_node_offline_by_quorumtool_output :: "string \<Rightarrow> bool"
  node_action :: "action \<Rightarrow> string \<Rightarrow> int \<times> string"
  run :: "string list \<Rightarrow> string \<times> int"
  removeLocalNode :: "string \<Rightarrow> string \<Rightarrow> string + (int \<times> string list)"
  addLocalNode :: "string \<Rightarrow> string \<Rightarrow> string option \<Rightarrow> int \<times> string"
  run_pcsdcli_send_local_configs :: "string list \<Rightarrow> pcsd_output \<times> int"
  set_qdevice_net_certificates :: "string \<Rightarrow> bool"
  enableCluster :: "string \<Rightarrow> int \<times> string"
  startCluster :: "string \<Rightarrow> int \<times> string"
  nodes_started :: "string list \<Rightarrow> bool"
  set_iteration :: "string list \<Rightarrow> string list"
  checkAuthorization :: "string \<Rightarrow> int \<times> string"
  parse_multiring_node :: "string \<Rightarrow> string \<times> string option"

definition force_option :: "'q env \<Rightarrow> bool" where
  "force_option env = (pcs_options env ''--force'' \<noteq> None)"

definition parse_quorum_info :: "'q env \<Rightarrow> string \<Rightarrow> 'q option" where
  "parse_quorum_info env data =
     (if is_rhel6 env then parse_cman_quorum_info env data
      else parse_quorumtool_output env data)"

text \<open>
  Modelled from the spec: \<^verbatim>\<open>utils.parallel_for_nodes\<close> is not part of this file. It runs
  the action against every node, a failing node never stops the others, and it gives
  the node-labelled messages of the nodes that failed, in the order of the nodes.
\<close>

definition parallel_for_nodes :: "'q env \<Rightarrow> action \<Rightarrow> string list \<Rightarrow> string list" where
  "parallel_for_nodes env a nodes =
     map (\<lambda>node. node @ '': '' @ strip (snd (node_action env a node)))
       (filter (\<lambda>node. fst (node_action env a node) \<noteq> 0) nodes)"

text \<open>
  The loop of the quorum check of \<^verbatim>\<open>stop_cluster_nodes\<close> (lines 1000-1028) over the nodes
  still to visit, with the \<^verbatim>\<open>error_list\<close> so far: its events and \<open>Inl\<close> the message of the
  fatal error or \<open>Inr\<close> the \<^verbatim>\<open>error_list\<close> at the end of the loop. \<open>nodes\<close> is the whole
  list, which the loss prediction is asked about.
\<close>

fun quorum_check_loop ::
  "'q env \<Rightarrow> string list \<Rightarrow> string list \<Rightarrow> string list \<Rightarrow> event list \<times> (string + string list)" where
  "quorum_check_loop env nodes [] error_list = ([], Inr error_list)"
| "quorum_check_loop env nodes (node # rest) error_list =
     (let (retval, data) = get_remote_quorumtool_output env node;
          (events, result) =
            (if retval \<noteq> 0 then
               quorum_check_loop env nodes rest (error_list @ [node @ '': '' @ data])
             else
               (case parse_quorum_info env data of
                  Some quorum_info \<Rightarrow>
                    if \<not> quorate env quorum_info then
                      quorum_check_loop env nodes rest error_list
                    else if is_node_stop_cause_quorum_loss env quorum_info False (Some nodes) then
                      ([], Inl (''Stopping the node(s) will cause a loss of the quorum''
                                @ '', use --force to override''))
                    else ([], Inr [])
                | None \<Rightarrow>
                    if \<not> is_node_offline_by_quorumtool_output env data then
                      quorum_check_loop env nodes rest
                        (error_list @ [''Unable to get quorum status''])
                    else quorum_check_loop env nodes rest error_list))
      in (QuorumQuery node # events, result))"

text \<open>
  The quorum check of \<^verbatim>\<open>stop_cluster_nodes\<close> (lines 999-1034) and one of its two
  fan-outs (lines 1036-1042).
\<close>

definition stop_check :: "'q env \<Rightarrow> string list \<Rightarrow> run" where
  "stop_check env nodes =
     (case quorum_check_loop env nodes nodes [] of
        (events, Inl message) \<Rightarrow> (events, Fatal message)
      | (events, Inr error_list) \<Rightarrow>
          if error_list \<noteq> [] then
            (events,
             Fatal (''Unable to determine whether stopping the nodes will cause ''
                    @ ''a loss of the quorum, use --force to override'' @ [CHR 0x0A]
                    @ join [CHR 0x0A] error_list))
          else (events, Completed))"

definition stop_fanout :: "'q env \<Rightarrow> string list \<Rightarrow> action \<Rightarrow> run" where
  "stop_fanout env nodes a =
     (let error_list = parallel_for_nodes env a nodes
      in ([Fanout a nodes],
          if error_list \<noteq> []
          then Fatal (''unable to stop all nodes'' @ [CHR 0x0A] @ join [CHR 0x0A] error_list)
          else Completed))"

text \<open>
  \<^verbatim>\<open>stop_cluster_nodes\<close>. The unknown nodes are a Python set; the message lists them in
  the order in which Python goes through that set.
\<close>

definition stop_cluster_nodes :: "'q env \<Rightarrow> string list \<Rightarrow> run" where
  "stop_cluster_nodes env nodes =
     (let all_nodes = getNodesFromCorosyncConf env;
          unknown_nodes = remdups (filter (\<lambda>node. node \<notin> set all_nodes) nodes);
          stopping_all = (set all_nodes \<subseteq> set nodes)
      in if unknown_nodes \<noteq> [] then
           ([], Fatal (''nodes '' @ [CHR 0x27]
                       @ join ([CHR 0x27] @ '', '' @ [CHR 0x27]) (set_iteration env unknown_nodes)
                       @ [CHR 0x27] @ '' do not appear to exist in configuration''))
         else
           and_then
             (if \<not> force_option env \<and> \<not> stopping_all then stop_check env nodes
              else ([], Completed))
             (and_then (stop_fanout env nodes stopPacemaker)
                (stop_fanout env nodes stopCorosync)))"


fun stop_services :: "'q env \<Rightarrow> string list \<Rightarrow> run" where
  "stop_services env [] = ([], Completed)"
| "stop_services env (service # rest) =
     (let (output, retval) = run env [''service'', service, ''stop'']
      in if retval \<noteq> 0
         then ([RunCmd [''service'', service, ''stop''], Print output],
               Fatal (''unable to stop '' @ service))
         else and_then ([RunCmd [''service'', service, ''stop'']], Completed)
                (stop_services env rest))"





text \<open>\<^verbatim>\<open>destroy_cluster\<close>\<close>

definition destroy_cluster :: "'q env \<Rightarrow> string list \<Rightarrow> bool \<Rightarrow> run" where
  "destroy_cluster env argv keep_going =
     (if length argv > 0 then
        (let nodes = argv;
             error_list = parallel_for_nodes env destroyCluster nodes
         in if error_list \<noteq> [] then
              (if keep_going then
                 ([Fanout stopPacemaker nodes, Fanout destroyCluster nodes,
                   Print (''Warning: unable to destroy cluster'' @ [CHR 0x0A]
                          @ join [CHR 0x0A] error_list)],
                  Completed)
               else
                 ([Fanout stopPacemaker nodes, Fanout destroyCluster nodes],
                  Fatal (''unable to destroy cluster'' @ [CHR 0x0A] @ join [CHR 0x0A] error_list)))
            else ([Fanout stopPacemaker nodes, Fanout destroyCluster nodes], Completed))
      else ([], Completed))"

text \<open>
  Removing a node: \<^verbatim>\<open>cluster_node\<close> from line 1532 to its end, for the ring 0 address
  \<open>node0\<close> of the node to remove.
\<close>

definition remove_quorum_check :: "'q env \<Rightarrow> string \<Rightarrow> run" where
  "remove_quorum_check env node0 =
     (let (retval, data) = get_remote_quorumtool_output env node0;
          unable = Fatal (''Unable to determine whether removing the node will cause ''
                          @ ''a loss of the quorum, use --force to override'' @ [CHR 0x0A] @ data)
      in if retval \<noteq> 0 then ([QuorumQuery node0], unable)
         else
           (case parse_quorum_info env data of
              Some quorum_info \<Rightarrow>
                if is_node_stop_cause_quorum_loss env quorum_info False (Some [node0])
                then ([QuorumQuery node0],
                      Fatal (''Removing the node will cause a loss of the quorum''
                             @ '', use --force to override''))
                else ([QuorumQuery node0], Completed)
            | None \<Rightarrow>
                if \<not> is_node_offline_by_quorumtool_output env data
                then ([QuorumQuery node0], unable)
                else ([QuorumQuery node0], Completed)))"

text \<open>
  The loop over the members (lines 1570-1587): its events and the final
  \<^verbatim>\<open>nodesRemoved\<close>.
\<close>

fun remove_from_members ::
  "'q env \<Rightarrow> string \<Rightarrow> string list \<Rightarrow> bool \<Rightarrow> event list \<times> bool" where
  "remove_from_members env node0 [] nodesRemoved = ([], nodesRemoved)"
| "remove_from_members env node0 (my_node # rest) nodesRemoved =
     (if my_node = node0 then remove_from_members env node0 rest nodesRemoved
      else
        (case removeLocalNode env my_node node0 of
           Inl output \<Rightarrow>
             (let (events, removed) = remove_from_members env node0 rest nodesRemoved
              in (RemoveLocalNode my_node node0
                  # Err (''unable to remove '' @ node0 @ '' on '' @ my_node @ '' - ''
                         @ strip output)
                  # events, removed))
         | Inr (code, lines) \<Rightarrow>
             if code = 0 then
               (let (events, removed) = remove_from_members env node0 rest True
                in (RemoveLocalNode my_node node0 # Print (my_node @ '': Corosync updated'')
                    # events, removed))
             else
               (let (events, removed) = remove_from_members env node0 rest nodesRemoved
                in (RemoveLocalNode my_node node0
                    # Err (my_node @ '': Error executing command occured: '' @ concat lines)
                    # events, removed))))"

definition cluster_node_remove :: "'q env \<Rightarrow> string \<Rightarrow> run" where
  "cluster_node_remove env node0 =
     (if node0 \<notin> set (getNodesFromCorosyncConf env) then
        ([], Fatal (''node '' @ [CHR 0x27] @ node0 @ [CHR 0x27]
                    @ '' does not appear to exist in configuration''))
      else
        and_then (if \<not> force_option env then remove_quorum_check env node0 else ([], Completed))
          (let c_nodes = getNodesFromCorosyncConf env
           in and_then (destroy_cluster env [node0] (force_option env))
                (let (events, nodesRemoved) = remove_from_members env node0 c_nodes False
                 in if \<not> nodesRemoved then (events, Fatal ''Unable to update any nodes'')
                    else
                      (events
                       @ [ReloadCorosync, RunCmd [''crm_node'', ''--force'', ''-R'', node0]]
                       @ (if is_cman_with_udpu_transport env
                          then [Print (''Warning: Using udpu transport on a CMAN cluster, ''
                                       @ ''cluster restart is required to apply node removal'')]
                          else []),
                       Completed))))"

text \<open>
  The whole of \<^verbatim>\<open>cluster_node\<close> for the arguments \<^verbatim>\<open>remove\<close> (or \<^verbatim>\<open>delete\<close>) and \<open>node\<close>:
  the addresses of the node and, without \<^verbatim>\<open>--force\<close>, the check of the authorization
  (lines 1356-1376), then the removal.
\<close>

definition remove_authorization_check :: "'q env \<Rightarrow> string \<Rightarrow> run" where
  "remove_authorization_check env node0 =
     (let (status, output) = checkAuthorization env node0;
          msg =
            (if status = 2 then ''pcsd is not running on '' @ node0
             else if status = 3 then
               node0 @ '' is not yet authenticated '' @ '' (try pcs cluster auth '' @ node0 @ '')''
             else output)
      in if status \<noteq> 0
         then ([CheckAuthorization node0], Fatal (msg @ '', use --force to override''))
         else ([CheckAuthorization node0], Completed))"

definition cluster_node_remove_command :: "'q env \<Rightarrow> string \<Rightarrow> run" where
  "cluster_node_remove_command env node =
     (let (node0, node1) = parse_multiring_node env node
      in if node0 = [] then ([], Fatal ''missing ring 0 address of the node'')
         else
           and_then
             (if \<not> force_option env then remove_authorization_check env node0
              else ([], Completed))
             (cluster_node_remove env node0))"

text \<open>
  Adding a node: \<^verbatim>\<open>cluster_node\<close> from line 1456 to line 1530, for the addresses \<open>node0\<close>
  and \<open>node1\<close> of the new node. First the loop over the members (lines 1456-1465): its
  events and the final \<^verbatim>\<open>corosync_conf\<close>, \<open>None\<close> being Python's \<^verbatim>\<open>None\<close>.
\<close>

fun add_to_members ::
  "'q env \<Rightarrow> string \<Rightarrow> string option \<Rightarrow> string list \<Rightarrow> string option
     \<Rightarrow> event list \<times> string option" where
  "add_to_members env node0 node1 [] corosync_conf = ([], corosync_conf)"
| "add_to_members env node0 node1 (my_node # rest) corosync_conf =
     (let (retval, output) = addLocalNode env my_node node0 node1
      in if retval \<noteq> 0 then
           (let (events, conf) = add_to_members env node0 node1 rest corosync_conf
            in (AddLocalNode my_node node0 node1
                # Err (''unable to add '' @ node0 @ '' on '' @ my_node @ '' - '' @ strip output)
                # events, conf))
         else
           (let (events, conf) = add_to_members env node0 node1 rest (Some output)
            in (AddLocalNode my_node node0 node1 # Print (my_node @ '': Corosync updated'')
                # events, conf)))"

text \<open>
  Sending the pcsd configuration to the new node (lines 1471-1489). The fatal error
  raised inside the \<^verbatim>\<open>try\<close> block is caught by the bare \<^verbatim>\<open>except\<close>, which raises its own.
\<close>

definition send_pcsd_configs :: "'q env \<Rightarrow> string \<Rightarrow> run" where
  "send_pcsd_configs env node0 =
     (let (output, retval) = run_pcsdcli_send_local_configs env [node0]
      in if retval \<noteq> 0 then ([SendLocalConfigs [node0]], Fatal ''Unable to set pcsd configs'')
         else if pcsd_status output = ''notauthorized'' then
           ([SendLocalConfigs [node0]],
            Fatal (''Unable to authenticate to '' @ node0 @ '', try running ''
                   @ [CHR 0x27] @ ''pcs cluster auth'' @ [CHR 0x27]))
         else if pcsd_status output = ''ok'' \<and> pcsd_data output \<noteq> [] then
           (case map_of (pcsd_data output) node0 of
              None \<Rightarrow> ([SendLocalConfigs [node0]], Fatal ''Unable to communicate with pcsd'')
            | Some node_status \<Rightarrow>
                if node_status \<notin> set [''ok'', ''not_supported'']
                then ([SendLocalConfigs [node0], Err ''Unable to set pcsd configs''],
                      Fatal ''Unable to communicate with pcsd'')
                else ([SendLocalConfigs [node0]], Completed))
         else ([SendLocalConfigs [node0]], Completed))"

text \<open>
  The steps after the pcsd configuration has been sent (lines 1491-1522 and
  1525-1530), for the configuration \<open>conf\<close> that the last accepting member gave back.
  The empty lines that the run prints are left out.
\<close>

definition add_node_steps :: "'q env \<Rightarrow> string \<Rightarrow> string \<Rightarrow> bool \<Rightarrow> run" where
  "add_node_steps env node0 conf wait =
     and_then
       (if \<not> is_rhel6 env
        then ([QdeviceCertificates conf],
              if set_qdevice_net_certificates env conf then ReportsExit else Completed)
        else ([], Completed))
       (and_then
          ([Print ''Setting up corosync...'', SetCorosyncConfig node0 conf]
           @ (if pcs_options env ''--enable'' \<noteq> None then
                [EnableCluster node0]
                @ (if fst (enableCluster env node0) \<noteq> 0
                   then [Print (''Warning: enable cluster - '' @ snd (enableCluster env node0))]
                   else [])
              else [])
           @ (if pcs_options env ''--start'' \<noteq> None \<or> is_rhel6 env then
                [StartCluster node0]
                @ (if fst (startCluster env node0) \<noteq> 0
                   then [Print (''Warning: start cluster - '' @ snd (startCluster env node0))]
                   else [])
              else [])
           @ [SyncCerts [node0]],
           Completed)
          (and_then
             (if is_cman_with_udpu_transport env
              then ([Print (''Warning: Using udpu transport on a CMAN cluster, ''
                            @ ''cluster restart is required to apply node addition'')],
                    Completed)
              else ([], Completed))
             (if wait then
                ([WaitForNodesStarted [node0]],
                 if nodes_started env [node0] then Completed
                 else Fatal ''unable to verify all nodes have started'')
              else ([], Completed))))"

definition cluster_node_add :: "'q env \<Rightarrow> string \<Rightarrow> string option \<Rightarrow> bool \<Rightarrow> run" where
  "cluster_node_add env node0 node1 wait =
     (let (events, corosync_conf) =
            add_to_members env node0 node1 (getNodesFromCorosyncConf env) None;
          events = events @ [ReloadCorosync]
      in case corosync_conf of
           None \<Rightarrow> (events, Fatal ''Unable to update any nodes'')
         | Some conf \<Rightarrow>
             and_then (events, Completed)
               (and_then (send_pcsd_configs env node0) (add_node_steps env node0 conf wait)))"

text \<open>
  Two readings of the environment that describe what the quorum check of
  \<^verbatim>\<open>stop_cluster_nodes\<close> finds. \<open>decisive_snapshot\<close> is the quorum information the check
  decides on: that of the first node of the list whose quorum tool output was obtained
  and parses to a quorate snapshot. \<open>quorum_errors\<close> are the entries that the nodes of the
  list add to \<^verbatim>\<open>error_list\<close>.
\<close>

definition gives_quorate_snapshot :: "'q env \<Rightarrow> string \<Rightarrow> bool" where
  "gives_quorate_snapshot env node =
     (fst (get_remote_quorumtool_output env node) = 0
      \<and> (case parse_quorum_info env (snd (get_remote_quorumtool_output env node)) of
           Some quorum_info \<Rightarrow> quorate env quorum_info
         | None \<Rightarrow> False))"

definition decisive_snapshot :: "'q env \<Rightarrow> string list \<Rightarrow> 'q option" where
  "decisive_snapshot env nodes =
     (case filter (gives_quorate_snapshot env) nodes of
        [] \<Rightarrow> None
      | node # rest \<Rightarrow> parse_quorum_info env (snd (get_remote_quorumtool_output env node)))"

definition quorum_error :: "'q env \<Rightarrow> string \<Rightarrow> string list" where
  "quorum_error env node =
     (let (retval, data) = get_remote_quorumtool_output env node
      in if retval \<noteq> 0 then [node @ '': '' @ data]
         else if parse_quorum_info env data = None
                 \<and> \<not> is_node_offline_by_quorumtool_output env data
         then [''Unable to get quorum status'']
         else [])"

definition quorum_errors :: "'q env \<Rightarrow> string list \<Rightarrow> string list" where
  "quorum_errors env nodes = concat (map (quorum_error env) nodes)"

text \<open>
  An environment to run the models in: a cluster of corosync nodes whose quorum
  information is just the flag \<^verbatim>\<open>quorate\<close>, where the quorum tool's output is one of the
  words \<^verbatim>\<open>quorate\<close>, \<^verbatim>\<open>inquorate\<close>, \<^verbatim>\<open>offline\<close> or something unreadable, where stopping
  three or more nodes at once loses the quorum, and where every other call
  succeeds. The options, the members and the answers of the quorum tool are given.
\<close>

definition test_env ::
  "options \<Rightarrow> string list \<Rightarrow> (string \<Rightarrow> int \<times> string) \<Rightarrow> bool env" where
  "test_env opts members quorumtool =
     \<lparr> pcs_options = opts,
       is_rhel6 = False,
       is_systemctl = True,
       is_cman_cluster = False,
       need_to_handle_qdevice_service = False,
       is_cman_with_udpu_transport = False,
       getNodesFromCorosyncConf = members,
       get_remote_quorumtool_output = quorumtool,
       parse_cman_quorum_info = (\<lambda>data. None),
       parse_quorumtool_output =
         (\<lambda>data. if data = ''quorate'' then Some True
                 else if data = ''inquorate'' then Some False
                 else None),
       quorate = (\<lambda>quorum_info. quorum_info),
       is_node_stop_cause_quorum_loss =
         (\<lambda>quorum_info local node_list.
            case node_list of Some nodes \<Rightarrow> 3 \<le> length nodes | None \<Rightarrow> False),
       is_node_offline_by_quorumtool_output = (\<lambda>data. data = ''offline''),
       node_action = (\<lambda>a node. (0, [])),
       run = (\<lambda>command. (if command = [''corosync-quorumtool'', ''-p'', ''-s'']
                            then snd (quorumtool []) else [], 0)),
       removeLocalNode = (\<lambda>my_node node. Inr (0, [])),
       addLocalNode = (\<lambda>my_node node0 node1. (0, ''totem {}'')),
       run_pcsdcli_send_local_configs =
         (\<lambda>nodes. (\<lparr> pcsd_status = ''ok'', pcsd_data = [] \<rparr>, 0)),
       set_qdevice_net_certificates = (\<lambda>conf. False),
       enableCluster = (\<lambda>node. (0, [])),
       startCluster = (\<lambda>node. (0, [])),
       nodes_started = (\<lambda>nodes. True),
       set_iteration = (\<lambda>nodes. nodes),
       checkAuthorization = (\<lambda>node. (0, [])),
       parse_multiring_node = (\<lambda>node. (node, None)) \<rparr>"



section \<open>Properties\<close>

subsection \<open>The section store\<close>

lemma append_attrs_Section [simp]:
  "append_attrs new (Section n a ss) = Section n (a @ new) ss"
  by (simp add: append_attrs_def)

lemma modify_at_twice:
  "modify_at r f (modify_at r g c) = modify_at r (f \<circ> g) c"
proof (induction r arbitrary: c)
  case Nil
  show ?case by simp
next
  case (Cons i r)
  obtain n a ss where c: "c = Section n a ss" by (cases c)
  show ?case
  proof (cases "i < length ss")
    case True
    then show ?thesis using Cons.IH c by simp
  next
    case False
    then show ?thesis using c by (simp add: list_update_beyond)
  qed
qed

lemma add_attribute_append: "add_attribute r name v c = modify_at r (append_attrs [(name, v)]) c"
  by (simp add: add_attribute_def append_attrs_def[abs_def])

lemma append_attrs_comp: "append_attrs ys \<circ> append_attrs xs = append_attrs (xs @ ys)"
  by (rule ext) (simp add: append_attrs_def)

lemma append_attrs_Nil: "modify_at r (append_attrs []) c = c"
proof (induction r arbitrary: c)
  case Nil
  show ?case by (simp add: append_attrs_def)
next
  case (Cons i r)
  show ?case using Cons.IH by (cases c) simp
qed

lemma add_named_attributes_append:
  "add_named_attributes r names d c = modify_at r (append_attrs (named_attrs names d)) c"
proof (induction names arbitrary: c)
  case Nil
  show ?case by (simp add: add_named_attributes_def named_attrs_def append_attrs_Nil)
next
  case (Cons n names)
  have step: "add_named_attributes r (n # names) d c =
      add_named_attributes r names d
        (case d n of Some v \<Rightarrow> add_attribute r n (PStr v) c | None \<Rightarrow> c)"
    by (simp add: add_named_attributes_def)
  show ?case
  proof (cases "d n")
    case None
    then show ?thesis using Cons.IH step by (simp add: named_attrs_def)
  next
    case (Some v)
    then show ?thesis using Cons.IH step
      by (simp add: named_attrs_def add_attribute_append modify_at_twice append_attrs_comp)
  qed
qed

lemma add_node_step:
  assumes "j < length ss" and "ss ! j = Section n a subs"
  shows "add_node [j] x (Section rn ra ss) =
         Section rn ra (ss[j := Section n a (subs @ [node_section_of x])])"
  using assms
  by (cases x)
     (simp add: add_node_def add_section_def add_named_attributes_append add_attribute_append
        modify_at_twice append_attrs_comp node_section_of_def)


lemma add_interface_step:
  assumes "j < length ss" and "ss ! j = Section n a subs"
  shows "add_interface [j] x (Section rn ra ss) =
         Section rn ra (ss[j := Section n a (subs @ [interface_section_of x])])"
  using assms
  by (cases x)
     (simp add: add_interface_def add_section_def add_named_attributes_append
        add_attribute_append modify_at_twice append_attrs_comp interface_section_of_def
        split: option.split)

lemma fold_attach:
  assumes step: "\<And>x ss subs. j < length ss \<Longrightarrow> ss ! j = Section n a subs \<Longrightarrow>
            f x (Section rn ra ss) = Section rn ra (ss[j := Section n a (subs @ [g x])])"
    and "j < length ss" and "ss ! j = Section n a subs"
  shows "fold f xs (Section rn ra ss) = Section rn ra (ss[j := Section n a (subs @ map g xs)])"
  using assms(2,3)
proof (induction xs arbitrary: ss subs)
  case Nil
  then show ?case by (metis append_Nil2 list.simps(8) fold_simps(1) list_update_id)
next
  case (Cons x xs)
  have "fold f (x # xs) (Section rn ra ss) =
        fold f xs (Section rn ra (ss[j := Section n a (subs @ [g x])]))"
    using step[OF Cons.prems] by simp
  also have "\<dots> = Section rn ra
       ((ss[j := Section n a (subs @ [g x])])[j := Section n a ((subs @ [g x]) @ map g xs)])"
    using Cons.prems by (intro Cons.IH) simp_all
  finally show ?case by simp
qed

lemma corosync_conf_tree_eq:
  "corosync_conf_tree cluster_name node_list t totem quorum =
     Section [] []
       [totem_section_of cluster_name t totem,
        Section ''nodelist'' [] (map node_section_of (enumerate 1 node_list)),
        quorum_section_of node_list quorum,
        logging_section_of]"
proof -
  have nodes: "\<And>s0 s2 s3 subs n a rn ra xs.
      fold (add_node [Suc 0]) xs (Section rn ra [s0, Section n a subs, s2, s3]) =
      Section rn ra [s0, Section n a (subs @ map node_section_of xs), s2, s3]"
    using fold_attach[where j = "Suc 0" and f = "add_node [Suc 0]" and g = node_section_of]
    by (simp add: add_node_step)
  have rings: "\<And>rest subs n a rn ra xs.
      fold (add_interface [0]) xs (Section rn ra (Section n a subs # rest)) =
      Section rn ra (Section n a (subs @ map interface_section_of xs) # rest)"
    using fold_attach[where j = 0 and f = "add_interface [0]" and g = interface_section_of]
    by (simp add: add_interface_step)
  show ?thesis
    by (simp add: corosync_conf_tree_def Let_def add_section_def add_named_attributes_append
        add_attribute_append nodes rings totem_section_of_def
        quorum_section_of_def logging_section_of_def split: option.split)
qed


subsection \<open>Decimal numbers and the ring addresses\<close>

text \<open>
  The ring loop of the corosync parser reads \<^verbatim>\<open>options["--addr<i>"]\<close> only where the
  option is present, so the lookup never fails.
\<close>

lemma interface_ids_addr_present:
  "i \<in> set (interface_ids_corosync options) \<Longrightarrow> options (''--addr'' @ str_nat i) \<noteq> None"
  by (auto simp: interface_ids_corosync_def str_nat.simps[of 0] str_nat.simps[of "Suc 0"]
      split: if_splits)


lemma str_nat_0: "str_nat 0 = ''0''" by (simp add: str_nat.simps)
lemma str_nat_1: "str_nat (Suc 0) = ''1''" by (simp add: str_nat.simps)
lemma str_nat_2: "str_nat 2 = ''2''" by (simp add: str_nat.simps)

subsection \<open>C10: the start predicate on status dictionaries\<close>

text \<open>
  C10. \<^verbatim>\<open>is_node_fully_started\<close> is total on status dictionaries: it is true exactly when
  the keys \<^verbatim>\<open>online\<close> and \<^verbatim>\<open>pending\<close> are both present, \<^verbatim>\<open>online\<close> truthy and \<^verbatim>\<open>pending\<close>
  falsy, and then it is \<^verbatim>\<open>True\<close>; with either key missing it is \<^verbatim>\<open>False\<close>, and the turn
  of the remote or local waiter that received such a status raises nothing: it reports
  the timeout if the deadline has passed and otherwise goes to sleep for another turn.
\<close>

theorem is_node_fully_started_total:
  "(truthy (is_node_fully_started node_status) \<longleftrightarrow>
      (\<exists>online pending. node_status ''online'' = Some online
         \<and> node_status ''pending'' = Some pending \<and> truthy online \<and> \<not> truthy pending))
   \<and> (truthy (is_node_fully_started node_status) \<longrightarrow>
        is_node_fully_started node_status = JBool True)
   \<and> (node_status ''online'' = None \<or> node_status ''pending'' = None \<longrightarrow>
        is_node_fully_started node_status = JBool False
        \<and> (getPacemakerNodeStatus env i = (0, output)
             \<and> json_loads env output = Some (JDict items) \<and> map_of items = node_status \<longrightarrow>
             remote_turn env stop_at i =
               (if now env i > stop_at then Some (Returned 1 ''Waiting timeout'') else None))
        \<and> (get_local_node_status env i = Inr node_status \<longrightarrow>
             local_turn env stop_at i =
               (if now env i > stop_at then Some (Returned 1 ''Waiting timeout'') else None)))"
  by (auto simp: is_node_fully_started_def remote_turn_def local_turn_def
        is_node_fully_started_value_def split: option.splits)

theorem is_node_fully_started_total_witness:
  "is_node_fully_started [''online'' \<mapsto> JBool True] = JBool False
   \<and> remote_turn
        \<lparr> getPacemakerNodeStatus = (\<lambda>i. (0, ''{}'')),
          json_loads = (\<lambda>s. Some (JDict [(''online'', JBool True)])),
          get_local_node_status = (\<lambda>i. Inr [''online'' \<mapsto> JBool True]),
          now = (\<lambda>i. int i) \<rparr> 5 0 = None
   \<and> truthy (is_node_fully_started [''online'' \<mapsto> JBool True, ''pending'' \<mapsto> JBool False])"
  using is_node_fully_started_total[of "[''online'' \<mapsto> JBool True]"
      "\<lparr> getPacemakerNodeStatus = (\<lambda>i. (0, ''{}'')),
          json_loads = (\<lambda>s. Some (JDict [(''online'', JBool True)])),
          get_local_node_status = (\<lambda>i. Inr [''online'' \<mapsto> JBool True]),
          now = (\<lambda>i. int i) \<rparr>" 0 "''{}''" "[(''online'', JBool True)]" 5]
    is_node_fully_started_total[of "[''online'' \<mapsto> JBool True, ''pending'' \<mapsto> JBool False]"]
  by (simp add: fun_eq_iff)

lemma named_attrs_keys: "(k, v) \<in> set (named_attrs names d) \<Longrightarrow> k \<in> set names"
  by (auto simp: named_attrs_def split: option.splits)

subsection \<open>C1: the two-node marker\<close>

text \<open>
  C1, as amended. On the structured path the quorum section carries the attribute
  \<^verbatim>\<open>two_node\<close> (with the value 1) if and only if the node list has exactly two members
  and the option \<^verbatim>\<open>auto_tie_breaker\<close> is not \<^verbatim>\<open>"1"\<close>. On the cman path the
  \<^verbatim>\<open>--setcman\<close> command, the third of the sequence, carries \<^verbatim>\<open>two_node=1\<close> if and only if
  the node list has exactly two members: that path does not look at the tie-breaker
  option, which its parser reports as ignored.
\<close>

theorem two_node_marker:
  "(''two_node'' \<in> fst ` set (sec_attrs (sec_sections
        (corosync_conf_tree cluster_name node_list t totem quorum) ! 2))
      \<longleftrightarrow> length node_list = 2 \<and> quorum ''auto_tie_breaker'' \<noteq> Some ''1'')
   \<and> ((''two_node'', PStr ''1'') \<in> set (sec_attrs (sec_sections
        (corosync_conf_tree cluster_name node_list t totem quorum) ! 2))
      \<longleftrightarrow> length node_list = 2 \<and> quorum ''auto_tie_breaker'' \<noteq> Some ''1'')
   \<and> sec_name (sec_sections (corosync_conf_tree cluster_name node_list t totem quorum) ! 2)
       = ''quorum''
   \<and> (''two_node=1'' \<in> set (cmd (setcman_command node_list t)) \<longleftrightarrow> length node_list = 2)
   \<and> cluster_conf_commands cluster_name node_list t totem ! 2 = setcman_command node_list t"
proof -
  have q: "sec_sections (corosync_conf_tree cluster_name node_list t totem quorum) ! 2
           = quorum_section_of node_list quorum"
    by (simp add: corosync_conf_tree_eq numeral_2_eq_2)
  have keys: "''two_node'' \<notin> fst ` set (named_attrs [''wait_for_all'', ''auto_tie_breaker'',
        ''last_man_standing'', ''last_man_standing_window''] quorum)"
    using named_attrs_keys by fastforce
  have keys': "(''two_node'', PStr ''1'') \<notin> set (named_attrs [''wait_for_all'',
        ''auto_tie_breaker'', ''last_man_standing'', ''last_man_standing_window''] quorum)"
    using named_attrs_keys by fastforce
  have a: "''two_node'' \<in> fst ` set (sec_attrs (quorum_section_of node_list quorum))
      \<longleftrightarrow> length node_list = 2 \<and> quorum ''auto_tie_breaker'' \<noteq> Some ''1''"
    using keys by (auto simp: quorum_section_of_def image_Un)
  have b: "(''two_node'', PStr ''1'') \<in> set (sec_attrs (quorum_section_of node_list quorum))
      \<longleftrightarrow> length node_list = 2 \<and> quorum ''auto_tie_breaker'' \<noteq> Some ''1''"
    using keys' by (simp add: quorum_section_of_def)
  have c: "sec_name (quorum_section_of node_list quorum) = ''quorum''"
    by (simp add: quorum_section_of_def)
  have d: "''two_node=1'' \<in> set (cmd (setcman_command node_list t)) \<longleftrightarrow> length node_list = 2"
    by (simp add: setcman_command_def Let_def split: option.split)
  have e: "cluster_conf_commands cluster_name node_list t totem ! 2 = setcman_command node_list t"
    by (simp add: cluster_conf_commands_def Let_def numeral_2_eq_2)
  show ?thesis using a b c d e by (simp only: q) 
qed

theorem two_node_marker_witness:
  "''two_node'' \<in> fst ` set (sec_attrs (sec_sections
        (corosync_conf_tree ''c'' [[''ring0_addr'' \<mapsto> ''a''], [''ring0_addr'' \<mapsto> ''b'']]
           \<lparr> rings_options = Some [], transport = Some ''udpu'', rrp_mode = None,
             ip_version = None, broadcast = None \<rparr> Map.empty Map.empty) ! 2))
   \<and> ''two_node=1'' \<in> set (cmd (setcman_command
        [[''ring0_addr'' \<mapsto> ''a''], [''ring0_addr'' \<mapsto> ''b'']]
        \<lparr> rings_options = Some [], transport = Some ''udpu'', rrp_mode = None,
             ip_version = None, broadcast = None \<rparr>))"
  using two_node_marker[of "''c''" "[[''ring0_addr'' \<mapsto> ''a''], [''ring0_addr'' \<mapsto> ''b'']]"
      "\<lparr> rings_options = Some [], transport = Some ''udpu'', rrp_mode = None,
             ip_version = None, broadcast = None \<rparr>" Map.empty Map.empty]
  by simp

text \<open>
  The claim as first stated fails on the cman path: with two nodes and
  \<^verbatim>\<open>--auto_tie_breaker=1\<close> the parser only reports the option as ignored and the
  \<^verbatim>\<open>--setcman\<close> command still carries \<^verbatim>\<open>two_node=1\<close>.
\<close>

theorem two_node_marker_counterexample:
  "''two_node=1'' \<in> set (cmd (setcman_command
        [[''ring0_addr'' \<mapsto> ''a''], [''ring0_addr'' \<mapsto> ''b'']]
        (parsed_transport_options
           (fst (cluster_setup_parse_options_cman [''--auto_tie_breaker'' \<mapsto> ''1''] False)))))
   \<and> snd (cluster_setup_parse_options_cman [''--auto_tie_breaker'' \<mapsto> ''1''] False)
       = [cman_ignored_option ''--auto_tie_breaker'']"
  by (simp add: cluster_setup_parse_options_cman_def parse_rrpmode_def setcman_command_def
      str_nat.simps)


lemma named_attrs_filter:
  "x \<notin> set names \<Longrightarrow> filter (\<lambda>(k, v). k = x) (named_attrs names d) = []"
  by (auto simp: filter_empty_conv dest: named_attrs_keys)

lemma node_sections_nodeid:
  "map (\<lambda>s. filter (\<lambda>(k, v). k = ''nodeid'') (sec_attrs s)) (map node_section_of (enumerate k xs))
   = map (\<lambda>i. [(''nodeid'', PInt (int i))]) [k..<k + length xs]"
proof (induction xs arbitrary: k)
  case Nil
  show ?case by simp
next
  case (Cons x xs)
  have "[k..<k + length (x # xs)] = k # [Suc k..<Suc k + length xs]"
    by (subst upt_rec) simp
  then show ?case using Cons.IH[of "Suc k"]
    by (simp add: node_section_of_def named_attrs_filter)
qed

lemma node_sections_ring0:
  "map (\<lambda>s. map_of (sec_attrs s) ''ring0_addr'') (map node_section_of (enumerate k xs))
   = map (\<lambda>n. map_option PStr (n ''ring0_addr'')) xs"
  by (induction xs arbitrary: k)
     (auto simp: node_section_of_def named_attrs_def split: option.splits)

lemma node_sections_names:
  "map sec_name (map node_section_of (enumerate k xs)) = replicate (length xs) ''node''"
  by (induction xs arbitrary: k) (auto simp: node_section_of_def)

subsection \<open>C7: the layout of the structured configuration\<close>

lemma section_lines_node: "section_lines (node_section_of x) = node_lines x"
  by (cases x)
     (simp add: node_section_of_def node_lines_def named_attrs_def attr_line_def str_int_def
        split: option.split)

lemma section_lines_nodes:
  "concat (map section_lines (map node_section_of xs)) = concat (map node_lines xs)"
  by (induction xs) (simp_all add: section_lines_node)

text \<open>
  C7. The text that \<^verbatim>\<open>cluster_setup_create_corosync_conf\<close> gives is made of four blocks
  in this order: \<^verbatim>\<open>totem {\<close> ... \<^verbatim>\<open>}\<close>, \<^verbatim>\<open>nodelist {\<close> ... \<^verbatim>\<open>}\<close>, \<^verbatim>\<open>quorum {\<close> ... \<^verbatim>\<open>}\<close> and
  \<^verbatim>\<open>logging {\<close> ... \<^verbatim>\<open>}\<close>, and between the lines \<^verbatim>\<open>nodelist {\<close> and \<^verbatim>\<open>}\<close> there is one
  block \<^verbatim>\<open>node {\<close> ... \<^verbatim>\<open>}\<close> per input node, in input order, with the addresses of the
  node and the line \<^verbatim>\<open>nodeid: i\<close> for the \<open>i\<close>-th node, counted from 1. It is the
  rendering of a tree with these four top-level sections in that order, whose
  \<^verbatim>\<open>nodelist\<close> has one sub-section \<^verbatim>\<open>node\<close> per input node, in input order, each with
  exactly one \<^verbatim>\<open>nodeid\<close>, numbered 1, 2, 3, ... and with the ring 0 address of its input
  node.
\<close>

theorem corosync_conf_layout:
  "map sec_name (sec_sections (corosync_conf_tree cluster_name node_list t totem quorum))
     = [''totem'', ''nodelist'', ''quorum'', ''logging'']
   \<and> sec_sections (sec_sections (corosync_conf_tree cluster_name node_list t totem quorum) ! 1)
     = map node_section_of (enumerate 1 node_list)
   \<and> map sec_name
        (sec_sections (sec_sections (corosync_conf_tree cluster_name node_list t totem quorum) ! 1))
     = replicate (length node_list) ''node''
   \<and> map (\<lambda>s. filter (\<lambda>(k, v). k = ''nodeid'') (sec_attrs s))
        (sec_sections (sec_sections (corosync_conf_tree cluster_name node_list t totem quorum) ! 1))
     = map (\<lambda>i. [(''nodeid'', PInt (int i))]) [1..<1 + length node_list]
   \<and> map (\<lambda>s. map_of (sec_attrs s) ''ring0_addr'')
        (sec_sections (sec_sections (corosync_conf_tree cluster_name node_list t totem quorum) ! 1))
     = map (\<lambda>n. map_option PStr (n ''ring0_addr'')) node_list
   \<and> fst (cluster_setup_create_corosync_conf cluster_name node_list t totem quorum)
     = section_str (Section [] []
         [totem_section_of cluster_name t totem,
          Section ''nodelist'' [] (map node_section_of (enumerate 1 node_list)),
          quorum_section_of node_list quorum,
          logging_section_of])
   \<and> fst (cluster_setup_create_corosync_conf cluster_name node_list t totem quorum)
     = text_of_lines
         ([''totem {'']
          @ map attr_line (sec_attrs (totem_section_of cluster_name t totem))
          @ concat (map section_lines (sec_sections (totem_section_of cluster_name t totem)))
          @ [''}'']
          @ [''nodelist {''] @ concat (map node_lines (enumerate 1 node_list)) @ [''}'']
          @ [''quorum {'']
          @ map attr_line (sec_attrs (quorum_section_of node_list quorum))
          @ [''}'']
          @ [''logging {'', ''to_logfile: yes'', ''logfile: /var/log/cluster/corosync.log'',
             ''to_syslog: yes'', ''}''])"
proof -
  have names: "map sec_name (sec_sections (corosync_conf_tree cluster_name node_list t totem quorum))
     = [''totem'', ''nodelist'', ''quorum'', ''logging'']"
    by (simp add: corosync_conf_tree_eq totem_section_of_def quorum_section_of_def
        logging_section_of_def)
  have nl: "sec_sections (sec_sections (corosync_conf_tree cluster_name node_list t totem quorum) ! 1)
     = map node_section_of (enumerate 1 node_list)"
    by (simp add: corosync_conf_tree_eq)
  have str: "fst (cluster_setup_create_corosync_conf cluster_name node_list t totem quorum)
     = section_str (Section [] []
         [totem_section_of cluster_name t totem,
          Section ''nodelist'' [] (map node_section_of (enumerate 1 node_list)),
          quorum_section_of node_list quorum,
          logging_section_of])"
    by (simp add: cluster_setup_create_corosync_conf_def corosync_conf_tree_eq)
  have totem_lines: "section_lines (totem_section_of cluster_name t totem)
     = [''totem {'']
       @ map attr_line (sec_attrs (totem_section_of cluster_name t totem))
       @ concat (map section_lines (sec_sections (totem_section_of cluster_name t totem)))
       @ [''}'']"
    by (simp add: totem_section_of_def)
  have quorum_lines: "section_lines (quorum_section_of node_list quorum)
     = [''quorum {'']
       @ map attr_line (sec_attrs (quorum_section_of node_list quorum))
       @ [''}'']"
    by (simp add: quorum_section_of_def)
  have logging_lines: "section_lines logging_section_of
     = [''logging {'', ''to_logfile: yes'', ''logfile: /var/log/cluster/corosync.log'',
        ''to_syslog: yes'', ''}'']"
    by (simp add: logging_section_of_def attr_line_def)
  have nodelist_lines:
    "section_lines (Section ''nodelist'' [] (map node_section_of (enumerate 1 node_list)))
     = [''nodelist {''] @ concat (map node_lines (enumerate 1 node_list)) @ [''}'']"
    using section_lines_nodes[of "enumerate 1 node_list"] by simp
  have rendered: "fst (cluster_setup_create_corosync_conf cluster_name node_list t totem quorum)
     = text_of_lines
         ([''totem {'']
          @ map attr_line (sec_attrs (totem_section_of cluster_name t totem))
          @ concat (map section_lines (sec_sections (totem_section_of cluster_name t totem)))
          @ [''}'']
          @ [''nodelist {''] @ concat (map node_lines (enumerate 1 node_list)) @ [''}'']
          @ [''quorum {'']
          @ map attr_line (sec_attrs (quorum_section_of node_list quorum))
          @ [''}'']
          @ [''logging {'', ''to_logfile: yes'', ''logfile: /var/log/cluster/corosync.log'',
             ''to_syslog: yes'', ''}''])"
    unfolding str section_str_def
    by (simp only: conf_section.sel list.map concat.simps append_Nil append_Nil2
        totem_lines quorum_lines logging_lines nodelist_lines append_assoc)
  show ?thesis
    using names str rendered node_sections_nodeid[of 1 node_list] node_sections_ring0[of 1 node_list]
      node_sections_names[of 1 node_list]
    by (simp only: nl simp_thms)
qed

theorem corosync_conf_layout_witness:
  "sec_sections (sec_sections (corosync_conf_tree ''c''
        [[''ring0_addr'' \<mapsto> ''A''], [''ring0_addr'' \<mapsto> ''B''], [''ring0_addr'' \<mapsto> ''C'']]
        \<lparr> rings_options = Some [], transport = Some ''udpu'', rrp_mode = None,
          ip_version = None, broadcast = None \<rparr> Map.empty Map.empty) ! 1)
   = [Section ''node'' [(''ring0_addr'', PStr ''A''), (''nodeid'', PInt 1)] [],
      Section ''node'' [(''ring0_addr'', PStr ''B''), (''nodeid'', PInt 2)] [],
      Section ''node'' [(''ring0_addr'', PStr ''C''), (''nodeid'', PInt 3)] []]
   \<and> fst (cluster_setup_create_corosync_conf ''c''
        [[''ring0_addr'' \<mapsto> ''A''], [''ring0_addr'' \<mapsto> ''B''], [''ring0_addr'' \<mapsto> ''C'']]
        \<lparr> rings_options = Some [], transport = Some ''udpu'', rrp_mode = None,
          ip_version = None, broadcast = None \<rparr> Map.empty Map.empty)
   = text_of_lines
       [''totem {'', ''version: 2'', ''secauth: off'', ''cluster_name: c'', ''transport: udpu'',
        ''}'',
        ''nodelist {'',
        ''node {'', ''ring0_addr: A'', ''nodeid: 1'', ''}'',
        ''node {'', ''ring0_addr: B'', ''nodeid: 2'', ''}'',
        ''node {'', ''ring0_addr: C'', ''nodeid: 3'', ''}'',
        ''}'',
        ''quorum {'', ''provider: corosync_votequorum'', ''}'',
        ''logging {'', ''to_logfile: yes'', ''logfile: /var/log/cluster/corosync.log'',
        ''to_syslog: yes'', ''}'']"
proof -
  let ?nodes = "[[''ring0_addr'' \<mapsto> ''A''], [''ring0_addr'' \<mapsto> ''B''],
                 [''ring0_addr'' \<mapsto> ''C'']] :: node_options list"
  let ?t = "\<lparr> rings_options = Some [], transport = Some ''udpu'', rrp_mode = None,
             ip_version = None, broadcast = None \<rparr>"
  have sections: "sec_sections (sec_sections
        (corosync_conf_tree ''c'' ?nodes ?t Map.empty Map.empty) ! 1)
     = map node_section_of (enumerate 1 ?nodes)"
    using corosync_conf_layout[of "''c''" ?nodes ?t Map.empty Map.empty]
    by (elim conjE) assumption
  have rendered: "fst (cluster_setup_create_corosync_conf ''c'' ?nodes ?t Map.empty Map.empty)
     = text_of_lines
         ([''totem {'']
          @ map attr_line (sec_attrs (totem_section_of ''c'' ?t Map.empty))
          @ concat (map section_lines (sec_sections (totem_section_of ''c'' ?t Map.empty)))
          @ [''}'']
          @ [''nodelist {''] @ concat (map node_lines (enumerate 1 ?nodes)) @ [''}'']
          @ [''quorum {'']
          @ map attr_line (sec_attrs (quorum_section_of ?nodes Map.empty))
          @ [''}'']
          @ [''logging {'', ''to_logfile: yes'', ''logfile: /var/log/cluster/corosync.log'',
             ''to_syslog: yes'', ''}''])"
    using corosync_conf_layout[of "''c''" ?nodes ?t Map.empty Map.empty]
    by (elim conjE) assumption
  show ?thesis
    unfolding sections rendered
    by (simp add: node_section_of_def named_attrs_def enumerate_eq_zip upt_conv_Cons
        totem_section_of_def quorum_section_of_def transport_option_def attr_line_def
        node_lines_def str_nat.simps[of "Suc 0"] str_nat.simps[of "Suc (Suc 0)"]
        str_nat.simps[of "Suc (Suc (Suc 0))"])
qed

subsection \<open>C9: the multicast defaults of a ring\<close>

text \<open>
  C9, as amended. The rings of the corosync parser are built by
  \<open>ring_options_corosync\<close> and those of the cman parser by \<open>ring_options_cman\<close>. For
  ring \<open>i\<close> without \<^verbatim>\<open>--mcast<i>\<close> (and, on the corosync path, without
  \<^verbatim>\<open>--broadcast<i>\<close>) the multicast address is 239.255.(i+1).1 on both paths. Without
  \<^verbatim>\<open>--mcastport<i>\<close> the port is 5405 on the corosync path; on the cman path the ring
  options carry a port only when \<^verbatim>\<open>--mcastport<i>\<close> is given.
\<close>

theorem ring_multicast_defaults:
  "rings_options (parsed_transport_options
       (fst (cluster_setup_parse_options_corosync options force)))
     = Some (if options ''--transport'' = Some ''udp''
             then map (ring_options_corosync options) (interface_ids_corosync options)
             else [])
   \<and> (options (''--broadcast'' @ str_nat i) = None \<longrightarrow>
        (options (''--mcast'' @ str_nat i) = None \<longrightarrow>
           mcastaddr (ring_options_corosync options i)
             = Some (''239.255.'' @ str_nat (i + 1) @ ''.1''))
        \<and> (options (''--mcastport'' @ str_nat i) = None \<longrightarrow>
           mcastport (ring_options_corosync options i) = Some ''5405''))
   \<and> rings_options (parsed_transport_options
       (fst (cluster_setup_parse_options_cman options force)))
     = Some (if options ''--broadcast0'' = None \<and> options ''--broadcast1'' = None
             then map (ring_options_cman options)
                    (filter (\<lambda>interface. options (''--addr'' @ str_nat interface) \<noteq> None) [0, 1])
             else [])
   \<and> (options (''--mcast'' @ str_nat i) = None \<longrightarrow>
        mcastaddr (ring_options_cman options i) = Some (''239.255.'' @ str_nat (i + 1) @ ''.1''))
   \<and> mcastport (ring_options_cman options i) = options (''--mcastport'' @ str_nat i)"
proof -
  have a: "rings_options (parsed_transport_options
       (fst (cluster_setup_parse_options_corosync options force)))
     = Some (if options ''--transport'' = Some ''udp''
             then map (ring_options_corosync options) (interface_ids_corosync options)
             else [])"
    by (simp add: cluster_setup_parse_options_corosync_def Let_def split_beta
        split: option.split)
  have b: "rings_options (parsed_transport_options
       (fst (cluster_setup_parse_options_cman options force)))
     = Some (if options ''--broadcast0'' = None \<and> options ''--broadcast1'' = None
             then map (ring_options_cman options)
                    (filter (\<lambda>interface. options (''--addr'' @ str_nat interface) \<noteq> None) [0, 1])
             else [])"
    by (simp add: cluster_setup_parse_options_cman_def Let_def split_beta)
  have c: "options (''--broadcast'' @ str_nat i) = None \<longrightarrow>
        (options (''--mcast'' @ str_nat i) = None \<longrightarrow>
           mcastaddr (ring_options_corosync options i)
             = Some (''239.255.'' @ str_nat (i + 1) @ ''.1''))
        \<and> (options (''--mcastport'' @ str_nat i) = None \<longrightarrow>
           mcastport (ring_options_corosync options i) = Some ''5405'')"
    by (simp add: ring_options_corosync_def Let_def split: option.split)
  have d: "options (''--mcast'' @ str_nat i) = None \<longrightarrow>
        mcastaddr (ring_options_cman options i) = Some (''239.255.'' @ str_nat (i + 1) @ ''.1'')"
    by (simp add: ring_options_cman_def Let_def split: option.split)
  have e: "mcastport (ring_options_cman options i) = options (''--mcastport'' @ str_nat i)"
    by (simp add: ring_options_cman_def Let_def empty_ring_options_def split: option.split)
  show ?thesis using a b c d e by blast
qed

theorem ring_multicast_defaults_witness:
  "map mcastaddr (the (rings_options (parsed_transport_options
       (fst (cluster_setup_parse_options_corosync
          [''--transport'' \<mapsto> ''udp'', ''--addr0'' \<mapsto> ''10.0.0.0'', ''--addr1'' \<mapsto> ''10.0.1.0'']
          False)))))
     = [Some ''239.255.1.1'', Some ''239.255.2.1'']
   \<and> map mcastport (the (rings_options (parsed_transport_options
       (fst (cluster_setup_parse_options_corosync
          [''--transport'' \<mapsto> ''udp'', ''--addr0'' \<mapsto> ''10.0.0.0'', ''--addr1'' \<mapsto> ''10.0.1.0'']
          False)))))
     = [Some ''5405'', Some ''5405'']"
  using ring_multicast_defaults[of
      "[''--transport'' \<mapsto> ''udp'', ''--addr0'' \<mapsto> ''10.0.0.0'', ''--addr1'' \<mapsto> ''10.0.1.0'']"
      False 0]
    ring_multicast_defaults[of
      "[''--transport'' \<mapsto> ''udp'', ''--addr0'' \<mapsto> ''10.0.0.0'', ''--addr1'' \<mapsto> ''10.0.1.0'']"
      False 1]
  by (simp add: interface_ids_corosync_def str_nat_0 str_nat_1 str_nat.simps[of "Suc (Suc 0)"])

text \<open>
  The claim as first stated fails on the cman path: for \<^verbatim>\<open>--addr0\<close> alone the ring
  has the default address and no port.
\<close>

theorem ring_multicast_defaults_counterexample:
  "map mcastaddr (the (rings_options (parsed_transport_options
       (fst (cluster_setup_parse_options_cman [''--addr0'' \<mapsto> ''10.0.0.0''] False)))))
     = [Some ''239.255.1.1'']
   \<and> map mcastport (the (rings_options (parsed_transport_options
       (fst (cluster_setup_parse_options_cman [''--addr0'' \<mapsto> ''10.0.0.0''] False)))))
     = [None]"
  by (simp add: cluster_setup_parse_options_cman_def parse_rrpmode_def ring_options_cman_def
      empty_ring_options_def str_nat_0 str_nat_1)


lemma parse_rrpmode_fst:
  "fst (parse_rrpmode options force) =
     (if options ''--rrpmode'' \<noteq> None \<or> options ''--addr0'' \<noteq> None
      then Some (case options ''--rrpmode'' of Some m \<Rightarrow> m | None \<Rightarrow> ''passive'')
      else None)"
  by (simp add: parse_rrpmode_def Let_def)

lemma parse_rrpmode_active:
  "fst (parse_rrpmode options force) = Some ''active'' \<Longrightarrow>
   rrp_active_not_supported force \<in> set (snd (parse_rrpmode options force))"
  by (auto simp: parse_rrpmode_def Let_def split: if_splits option.splits)

lemma corosync_rrp_mode:
  "rrp_mode (parsed_transport_options (fst (cluster_setup_parse_options_corosync options force)))
   = (if fst (parse_rrpmode options force) \<noteq> None \<and> fst (parse_rrpmode options force) \<noteq> Some []
      then fst (parse_rrpmode options force) else None)"
  by (simp add: cluster_setup_parse_options_corosync_def Let_def split_beta)

lemma cman_rrp_mode:
  "rrp_mode (parsed_transport_options (fst (cluster_setup_parse_options_cman options force)))
   = (if fst (parse_rrpmode options force) \<noteq> None \<and> fst (parse_rrpmode options force) \<noteq> Some []
      then fst (parse_rrpmode options force) else None)"
  by (simp add: cluster_setup_parse_options_cman_def Let_def split_beta)

lemma corosync_rrp_messages:
  "set (snd (parse_rrpmode options force))
   \<subseteq> set (snd (cluster_setup_parse_options_corosync options force))"
  by (auto simp: cluster_setup_parse_options_corosync_def Let_def split_beta)

lemma cman_rrp_messages:
  "set (snd (parse_rrpmode options force))
   \<subseteq> set (snd (cluster_setup_parse_options_cman options force))"
  by (auto simp: cluster_setup_parse_options_cman_def Let_def split_beta)

lemma parser_rrp_passive:
  assumes "options ''--rrpmode'' = None" and "options ''--addr0'' \<noteq> None"
  shows "rrp_mode (parsed_transport_options
            (fst (cluster_setup_parse_options_corosync options force))) = Some ''passive''"
    and "rrp_mode (parsed_transport_options
            (fst (cluster_setup_parse_options_cman options force))) = Some ''passive''"
  using assms by (simp_all add: corosync_rrp_mode cman_rrp_mode parse_rrpmode_fst)

lemma parser_rrp_active:
  shows "rrp_mode (parsed_transport_options
            (fst (cluster_setup_parse_options_corosync options force))) = Some ''active''
         \<Longrightarrow> rrp_active_not_supported force
               \<in> set (snd (cluster_setup_parse_options_corosync options force))"
    and "rrp_mode (parsed_transport_options
            (fst (cluster_setup_parse_options_cman options force))) = Some ''active''
         \<Longrightarrow> rrp_active_not_supported force
               \<in> set (snd (cluster_setup_parse_options_cman options force))"
  using parse_rrpmode_active[of options force] corosync_rrp_messages[of options force]
    cman_rrp_messages[of options force]
  by (auto simp: corosync_rrp_mode cman_rrp_mode split: if_splits)

lemma setup_options_parsed:
  assumes "cluster_setup_options pmn resolvable rhel6 options nodes
           = Inr (node_list, parsed, messages)"
  shows "messages =
            snd (if rhel6
                 then cluster_setup_parse_options_cman options (options ''--force'' \<noteq> None)
                 else cluster_setup_parse_options_corosync options (options ''--force'' \<noteq> None))"
    and "rrp_mode (parsed_transport_options parsed) =
          (if (\<exists>n \<in> set nodes. has_ring1 (pmn n))
              \<and> rrp_mode (parsed_transport_options
                    (fst (if rhel6
                          then cluster_setup_parse_options_cman options
                                 (options ''--force'' \<noteq> None)
                          else cluster_setup_parse_options_corosync options
                                 (options ''--force'' \<noteq> None)))) = None
           then Some ''passive''
           else rrp_mode (parsed_transport_options
                    (fst (if rhel6
                          then cluster_setup_parse_options_cman options
                                 (options ''--force'' \<noteq> None)
                          else cluster_setup_parse_options_corosync options
                                 (options ''--force'' \<noteq> None)))))"
proof -
  define pm where "pm = (if rhel6
                 then cluster_setup_parse_options_cman options (options ''--force'' \<noteq> None)
                 else cluster_setup_parse_options_corosync options (options ''--force'' \<noteq> None))"
  define udpu_rrp where "udpu_rrp = (\<exists>n \<in> set nodes. has_ring1 (pmn n))"
  have "Inr (node_list, parsed, messages) =
        cluster_setup_options pmn resolvable rhel6 options nodes"
    using assms by simp
  then have eq: "(parsed, messages) =
      ((if udpu_rrp \<and> rrp_mode (parsed_transport_options (fst pm)) = None
        then (fst pm)\<lparr> parsed_transport_options :=
                (parsed_transport_options (fst pm))\<lparr> rrp_mode := Some ''passive'' \<rparr> \<rparr>
        else fst pm), snd pm)"
    unfolding cluster_setup_options_def Let_def split_beta pm_def[symmetric]
    by (simp add: udpu_rrp_def split: if_splits)
  show "messages =
            snd (if rhel6
                 then cluster_setup_parse_options_cman options (options ''--force'' \<noteq> None)
                 else cluster_setup_parse_options_corosync options (options ''--force'' \<noteq> None))"
    using eq by (simp add: pm_def)
  have "rrp_mode (parsed_transport_options parsed) =
          (if udpu_rrp \<and> rrp_mode (parsed_transport_options (fst pm)) = None
           then Some ''passive'' else rrp_mode (parsed_transport_options (fst pm)))"
    using eq by (simp split: if_splits)
  then show "rrp_mode (parsed_transport_options parsed) =
          (if (\<exists>n \<in> set nodes. has_ring1 (pmn n))
              \<and> rrp_mode (parsed_transport_options
                    (fst (if rhel6
                          then cluster_setup_parse_options_cman options
                                 (options ''--force'' \<noteq> None)
                          else cluster_setup_parse_options_corosync options
                                 (options ''--force'' \<noteq> None)))) = None
           then Some ''passive''
           else rrp_mode (parsed_transport_options
                    (fst (if rhel6
                          then cluster_setup_parse_options_cman options
                                 (options ''--force'' \<noteq> None)
                          else cluster_setup_parse_options_corosync options
                                 (options ''--force'' \<noteq> None)))))"
    by (simp only: pm_def udpu_rrp_def)
qed

subsection \<open>C8: the default RRP mode\<close>

text \<open>
  C8, as amended. Without \<^verbatim>\<open>--rrpmode\<close>, both parsers set \<^verbatim>\<open>rrp_mode\<close> to
  \<^verbatim>\<open>passive\<close> when \<^verbatim>\<open>--addr0\<close> is given, and the setup sets it to \<^verbatim>\<open>passive\<close> when
  \<^verbatim>\<open>--addr0\<close> is given or a node argument carries a ring 1 address. Whenever the
  resulting mode is \<^verbatim>\<open>active\<close>, the report \<^verbatim>\<open>rrp_active_not_supported\<close> is among the
  messages, with or without \<^verbatim>\<open>--force\<close>.
\<close>

theorem rrp_mode_default:
  "(options ''--rrpmode'' = None \<and> options ''--addr0'' \<noteq> None \<longrightarrow>
      rrp_mode (parsed_transport_options
         (fst (cluster_setup_parse_options_corosync options force))) = Some ''passive''
      \<and> rrp_mode (parsed_transport_options
         (fst (cluster_setup_parse_options_cman options force))) = Some ''passive'')
   \<and> (rrp_mode (parsed_transport_options
         (fst (cluster_setup_parse_options_corosync options force))) = Some ''active'' \<longrightarrow>
       rrp_active_not_supported force
         \<in> set (snd (cluster_setup_parse_options_corosync options force)))
   \<and> (rrp_mode (parsed_transport_options
         (fst (cluster_setup_parse_options_cman options force))) = Some ''active'' \<longrightarrow>
       rrp_active_not_supported force
         \<in> set (snd (cluster_setup_parse_options_cman options force)))
   \<and> (cluster_setup_options pmn resolvable rhel6 options nodes
         = Inr (node_list, parsed, messages) \<longrightarrow>
       (options ''--rrpmode'' = None
          \<and> ((\<exists>n \<in> set nodes. has_ring1 (pmn n)) \<or> options ''--addr0'' \<noteq> None) \<longrightarrow>
        rrp_mode (parsed_transport_options parsed) = Some ''passive'')
       \<and> (rrp_mode (parsed_transport_options parsed) = Some ''active'' \<longrightarrow>
          rrp_active_not_supported (options ''--force'' \<noteq> None) \<in> set messages))"
proof -
  have at_setup: "rrp_mode (parsed_transport_options parsed) = Some ''passive''"
    if res: "cluster_setup_options pmn resolvable rhel6 options nodes
             = Inr (node_list, parsed, messages)"
      and nomode: "options ''--rrpmode'' = None"
      and ring1: "(\<exists>n \<in> set nodes. has_ring1 (pmn n)) \<or> options ''--addr0'' \<noteq> None"
    using setup_options_parsed(2)[OF res] nomode ring1
    by (cases rhel6) (auto simp: corosync_rrp_mode cman_rrp_mode parse_rrpmode_fst)
  have setup_active: "rrp_active_not_supported (options ''--force'' \<noteq> None) \<in> set messages"
    if res: "cluster_setup_options pmn resolvable rhel6 options nodes
             = Inr (node_list, parsed, messages)"
      and act: "rrp_mode (parsed_transport_options parsed) = Some ''active''"
    using setup_options_parsed[OF res] act
      parser_rrp_active[of options "options ''--force'' \<noteq> None"]
    by (cases rhel6) (auto split: if_splits)
  show ?thesis
    using parser_rrp_passive[of options force] parser_rrp_active[of options force]
      at_setup setup_active
    by blast
qed

theorem rrp_mode_default_witness:
  "rrp_mode (parsed_transport_options (fst (cluster_setup_parse_options_corosync
       [''--transport'' \<mapsto> ''udp'', ''--addr0'' \<mapsto> ''10.0.0.0''] False))) = Some ''passive''
   \<and> rrp_mode (parsed_transport_options (fst (cluster_setup_parse_options_cman
       [''--transport'' \<mapsto> ''udp'', ''--addr0'' \<mapsto> ''10.0.0.0''] False))) = Some ''passive''
   \<and> rrp_active_not_supported True
       \<in> set (snd (cluster_setup_parse_options_corosync [''--rrpmode'' \<mapsto> ''active''] True))
   \<and> rrp_active_not_supported True
       \<in> set (snd (cluster_setup_parse_options_cman [''--rrpmode'' \<mapsto> ''active''] True))"
  using rrp_mode_default[of "[''--transport'' \<mapsto> ''udp'', ''--addr0'' \<mapsto> ''10.0.0.0'']" False]
    rrp_mode_default[of "[''--rrpmode'' \<mapsto> ''active'']" True]
  by (simp add: corosync_rrp_mode cman_rrp_mode parse_rrpmode_fst)

text \<open>
  The claim as first stated fails for a ring 1 address given by \<^verbatim>\<open>--addr1\<close> alone: on
  cman every node gets that ring 1 address, no report is made and no \<^verbatim>\<open>rrp_mode\<close> is
  set; the corosync parser sets none either.
\<close>

theorem rrp_mode_default_counterexample:
  "(case cluster_setup_options (\<lambda>node. (node, None)) (\<lambda>node_addr. True) True
           [''--addr1'' \<mapsto> ''10.0.1.0''] [''a'', ''b''] of
      Inl message \<Rightarrow> False
    | Inr (node_list, parsed, messages) \<Rightarrow>
        map (\<lambda>node_options. node_options ''ring1_addr'') node_list
          = [Some ''10.0.1.0'', Some ''10.0.1.0'']
        \<and> rrp_mode (parsed_transport_options parsed) = None
        \<and> messages = [])
   \<and> rrp_mode (parsed_transport_options (fst (cluster_setup_parse_options_corosync
        [''--addr1'' \<mapsto> ''10.0.1.0''] False))) = None"
  by (simp add: cluster_setup_options_def cluster_setup_parse_options_cman_def
      cluster_setup_parse_options_corosync_def parse_rrpmode_def has_ring1_def
      node_options_of_def all_addr_list_of_def str_nat_0 str_nat_1)

lemma and_then_simps [simp]:
  "and_then (e1, Completed) r = (e1 @ fst r, snd r)"
  "and_then (e1, Fatal m) r = (e1, Fatal m)"
  "and_then (e1, ReportsExit) r = (e1, ReportsExit)"
  by (simp_all add: and_then_def)

lemma fst_and_then:
  "fst (and_then a b) = (if snd a = Completed then fst a @ fst b else fst a)"
  by (cases a; cases "snd a") (auto simp: and_then_def)

lemma snd_and_then:
  "snd (and_then a b) = (if snd a = Completed then snd b else snd a)"
  by (cases a; cases "snd a") (auto simp: and_then_def)

lemma decisive_snapshot_Cons:
  "decisive_snapshot env (node # rest) =
     (if gives_quorate_snapshot env node
      then parse_quorum_info env (snd (get_remote_quorumtool_output env node))
      else decisive_snapshot env rest)"
  by (simp add: decisive_snapshot_def)

lemma quorum_errors_Cons:
  "quorum_errors env (node # rest) = quorum_error env node @ quorum_errors env rest"
  by (simp add: quorum_errors_def)

lemma quorum_errors_Nil [simp]: "quorum_errors env [] = []"
  by (simp add: quorum_errors_def)

lemma quorum_check_loop_result:
  "snd (quorum_check_loop env nodes rest errs) =
     (case decisive_snapshot env rest of
        Some quorum_info \<Rightarrow>
          if is_node_stop_cause_quorum_loss env quorum_info False (Some nodes)
          then Inl (''Stopping the node(s) will cause a loss of the quorum''
                    @ '', use --force to override'')
          else Inr []
      | None \<Rightarrow> Inr (errs @ quorum_errors env rest))"
proof (induction rest arbitrary: errs)
  case Nil
  show ?case by (simp add: decisive_snapshot_def)
next
  case (Cons node rest)
  obtain retval data where q: "get_remote_quorumtool_output env node = (retval, data)"
    by (cases "get_remote_quorumtool_output env node")
  show ?case
  proof (cases "retval \<noteq> 0")
    case True
    then show ?thesis using q
      by (simp add: Cons.IH decisive_snapshot_Cons gives_quorate_snapshot_def quorum_errors_Cons
          quorum_error_def split_beta split: option.split)
  next
    case False
    then show ?thesis using q
      by (cases "parse_quorum_info env data")
         (simp_all add: Cons.IH decisive_snapshot_Cons gives_quorate_snapshot_def
          quorum_errors_Cons quorum_error_def split_beta split: option.split)
  qed
qed

lemma quorum_check_loop_events:
  "set (fst (quorum_check_loop env nodes rest errs)) \<subseteq> QuorumQuery ` set rest"
proof (induction rest arbitrary: errs)
  case Nil
  show ?case by simp
next
  case (Cons node rest)
  have "\<And>e. set (fst (quorum_check_loop env nodes rest e)) \<subseteq> QuorumQuery ` set (node # rest)"
    using Cons.IH by auto
  then show ?case
    by (auto simp: split_beta Let_def split: option.splits if_splits)
qed

lemma quorum_check_loop_hd:
  "rest \<noteq> [] \<Longrightarrow> hd (fst (quorum_check_loop env nodes rest errs)) = QuorumQuery (hd rest)"
  by (cases rest) (simp_all add: split_beta Let_def)


lemma stop_cluster_nodes_known:
  assumes "set nodes \<subseteq> set (getNodesFromCorosyncConf env)"
  shows "stop_cluster_nodes env nodes =
     and_then (if \<not> force_option env \<and> \<not> set (getNodesFromCorosyncConf env) \<subseteq> set nodes
               then stop_check env nodes else ([], Completed))
       (and_then (stop_fanout env nodes stopPacemaker) (stop_fanout env nodes stopCorosync))"
proof -
  have "filter (\<lambda>node. node \<notin> set (getNodesFromCorosyncConf env)) nodes = []"
    using assms by (auto simp: filter_empty_conv)
  then show ?thesis
    by (simp add: stop_cluster_nodes_def Let_def)
qed

lemma stop_check_events: "set (fst (stop_check env nodes)) \<subseteq> QuorumQuery ` set nodes"
  using quorum_check_loop_events[of env nodes nodes "[]"]
  by (auto simp: stop_check_def split: prod.splits sum.splits if_splits)

lemma stop_check_hd: "nodes \<noteq> [] \<Longrightarrow> hd (fst (stop_check env nodes)) = QuorumQuery (hd nodes)"
  using quorum_check_loop_hd[of nodes env nodes "[]"]
  by (auto simp: stop_check_def split: prod.splits sum.splits if_splits)

lemma stop_check_ne: "nodes \<noteq> [] \<Longrightarrow> fst (stop_check env nodes) \<noteq> []"
  by (cases nodes) (auto simp: stop_check_def split_beta Let_def split: prod.splits sum.splits if_splits)

lemma stop_check_loss:
  assumes "decisive_snapshot env nodes = Some quorum_info"
    and "is_node_stop_cause_quorum_loss env quorum_info False (Some nodes)"
  shows "snd (stop_check env nodes) =
           Fatal (''Stopping the node(s) will cause a loss of the quorum''
                  @ '', use --force to override'')"
  using quorum_check_loop_result[of env nodes nodes "[]"] assms
  by (auto simp: stop_check_def split: prod.splits sum.splits if_splits)


lemma stop_fanout_events [simp]: "fst (stop_fanout env nodes a) = [Fanout a nodes]"
  by (simp add: stop_fanout_def Let_def)

subsection \<open>C5: when the quorum check of a fleet-wide stop runs\<close>

text \<open>
  C5. For a stop of a non-empty list of nodes that all belong to the known
  membership, the run asks no node for its quorum status (the check is skipped) if and
  only if \<^verbatim>\<open>--force\<close> is given or the list covers the whole membership, and then the
  first thing it does is to stop pacemaker on the nodes. Otherwise the check runs,
  starting with the first node, and when the snapshot it decides on predicts a loss of
  the quorum the run ends with the fatal error about the loss and no fan-out to the
  nodes has been made.
\<close>

theorem stop_nodes_quorum_check:
  assumes "set nodes \<subseteq> set (getNodesFromCorosyncConf env)" and "nodes \<noteq> []"
  shows "((\<forall>node. QuorumQuery node \<notin> set (fst (stop_cluster_nodes env nodes)))
            \<longleftrightarrow> force_option env \<or> set (getNodesFromCorosyncConf env) \<subseteq> set nodes)
         \<and> (force_option env \<or> set (getNodesFromCorosyncConf env) \<subseteq> set nodes \<longrightarrow>
              hd (fst (stop_cluster_nodes env nodes)) = Fanout stopPacemaker nodes)
         \<and> (\<not> force_option env \<and> \<not> set (getNodesFromCorosyncConf env) \<subseteq> set nodes \<longrightarrow>
              hd (fst (stop_cluster_nodes env nodes)) = QuorumQuery (hd nodes)
              \<and> (\<forall>quorum_info.
                    decisive_snapshot env nodes = Some quorum_info
                    \<and> is_node_stop_cause_quorum_loss env quorum_info False (Some nodes) \<longrightarrow>
                    snd (stop_cluster_nodes env nodes) =
                      Fatal (''Stopping the node(s) will cause a loss of the quorum''
                             @ '', use --force to override'')
                    \<and> (\<forall>a ns. Fanout a ns \<notin> set (fst (stop_cluster_nodes env nodes)))))"
proof (cases "force_option env \<or> set (getNodesFromCorosyncConf env) \<subseteq> set nodes")
  case True
  then have "stop_cluster_nodes env nodes =
      and_then (stop_fanout env nodes stopPacemaker) (stop_fanout env nodes stopCorosync)"
    using stop_cluster_nodes_known[OF assms(1)] by auto
  then have "fst (stop_cluster_nodes env nodes) = [Fanout stopPacemaker nodes]
             \<or> fst (stop_cluster_nodes env nodes)
                = [Fanout stopPacemaker nodes, Fanout stopCorosync nodes]"
    by (simp add: fst_and_then)
  then show ?thesis using True by auto
next
  case False
  then have eq: "stop_cluster_nodes env nodes =
      and_then (stop_check env nodes)
        (and_then (stop_fanout env nodes stopPacemaker) (stop_fanout env nodes stopCorosync))"
    using stop_cluster_nodes_known[OF assms(1)] by auto
  have hd: "hd (fst (stop_cluster_nodes env nodes)) = QuorumQuery (hd nodes)"
    using stop_check_hd[OF assms(2), of env] stop_check_ne[OF assms(2), of env]
    by (simp add: eq fst_and_then)
  have "QuorumQuery (hd nodes) \<in> set (fst (stop_cluster_nodes env nodes))"
    using hd stop_check_ne[OF assms(2), of env]
    by (metis eq fst_and_then hd_in_set append_is_Nil_conv)
  then have query: "\<not> (\<forall>node. QuorumQuery node \<notin> set (fst (stop_cluster_nodes env nodes)))"
    by blast
  have loss: "snd (stop_cluster_nodes env nodes) =
                      Fatal (''Stopping the node(s) will cause a loss of the quorum''
                             @ '', use --force to override'')
                    \<and> (\<forall>a ns. Fanout a ns \<notin> set (fst (stop_cluster_nodes env nodes)))"
    if "decisive_snapshot env nodes = Some quorum_info"
      and "is_node_stop_cause_quorum_loss env quorum_info False (Some nodes)"
    for quorum_info
    using stop_check_loss[OF that] stop_check_events[of env nodes]
    by (auto simp: eq fst_and_then snd_and_then)
  show ?thesis using False hd query loss by blast
qed

theorem stop_nodes_quorum_check_witness:
  "hd (fst (stop_cluster_nodes
       (test_env Map.empty [''A'', ''B'', ''C'', ''D''] (\<lambda>node. (0, ''quorate'')))
       [''A'', ''B'', ''C''])) = QuorumQuery ''A''
   \<and> stop_cluster_nodes
       (test_env Map.empty [''A'', ''B'', ''C'', ''D''] (\<lambda>node. (0, ''quorate'')))
       [''A'', ''B'', ''C'']
     = ([QuorumQuery ''A''],
        Fatal ''Stopping the node(s) will cause a loss of the quorum, use --force to override'')
   \<and> fst (stop_cluster_nodes
       (test_env [''--force'' \<mapsto> []] [''A'', ''B'', ''C'', ''D''] (\<lambda>node. (0, ''quorate'')))
       [''A'', ''B'', ''C''])
     = [Fanout stopPacemaker [''A'', ''B'', ''C''], Fanout stopCorosync [''A'', ''B'', ''C'']]"
  using stop_nodes_quorum_check[of "[''A'', ''B'', ''C'']"
      "test_env Map.empty [''A'', ''B'', ''C'', ''D''] (\<lambda>node. (0, ''quorate''))"]
  by (simp add: test_env_def stop_cluster_nodes_def force_option_def parse_quorum_info_def
      parallel_for_nodes_def and_then_def stop_check_def stop_fanout_def)





lemma stop_services_outcome:
  "snd (stop_services env services) = Completed
   \<or> (\<exists>service. snd (stop_services env services) = Fatal (''unable to stop '' @ service))"
  by (induction services) (auto simp: split_beta snd_and_then)


subsection \<open>C2: a quorum status that cannot be determined\<close>




lemma remove_from_members_events:
  "RemoveLocalNode my_node node \<in> set (fst (remove_from_members env node0 members removed))
   \<Longrightarrow> node = node0 \<and> my_node \<noteq> node0"
  by (induction members arbitrary: removed)
     (auto simp: split_beta split: if_splits sum.splits)

lemma remove_quorum_check_events: "fst (remove_quorum_check env node0) = [QuorumQuery node0]"
  by (simp add: remove_quorum_check_def split_beta Let_def split: option.split)

lemma destroy_cluster_events:
  "\<exists>w. fst (destroy_cluster env [node0] keep_going)
        = [Fanout stopPacemaker [node0], Fanout destroyCluster [node0]] @ w
      \<and> (\<forall>m n. RemoveLocalNode m n \<notin> set w)"
  by (simp add: destroy_cluster_def Let_def)

subsection \<open>C4: removing a node stops it first\<close>

text \<open>
  C4. In a run that removes \<open>node0\<close>, every request to a member to remove a node
  from its configuration is a request to another member to remove \<open>node0\<close>, and it
  comes after the fan-outs that stop pacemaker on \<open>node0\<close> and destroy the cluster on
  \<open>node0\<close>: nothing before these two is such a request.
\<close>

theorem remove_stops_before_membership_update:
  "RemoveLocalNode my_node node \<in> set (fst (cluster_node_remove env node0)) \<longrightarrow>
     node = node0 \<and> my_node \<noteq> node0
     \<and> (\<exists>before after.
          fst (cluster_node_remove env node0)
            = before @ [Fanout stopPacemaker [node0], Fanout destroyCluster [node0]] @ after
          \<and> (\<forall>m n. RemoveLocalNode m n \<notin> set before))"
proof
  assume rm: "RemoveLocalNode my_node node \<in> set (fst (cluster_node_remove env node0))"
  define chk where "chk = (if \<not> force_option env then remove_quorum_check env node0
                            else ([], Completed))"
  define d where "d = destroy_cluster env [node0] (force_option env)"
  define members where "members = remove_from_members env node0 (getNodesFromCorosyncConf env) False"
  define m :: run where "m = (if \<not> snd members then (fst members, Fatal ''Unable to update any nodes'')
      else (fst members
            @ [ReloadCorosync, RunCmd [''crm_node'', ''--force'', ''-R'', node0]]
            @ (if is_cman_with_udpu_transport env
               then [Print (''Warning: Using udpu transport on a CMAN cluster, ''
                            @ ''cluster restart is required to apply node removal'')]
               else []),
            Completed))"
  have known: "node0 \<in> set (getNodesFromCorosyncConf env)"
    using rm by (auto simp: cluster_node_remove_def split: if_splits)
  then have eq: "cluster_node_remove env node0 = and_then chk (and_then d m)"
    by (simp add: cluster_node_remove_def Let_def split_beta chk_def d_def m_def members_def)
  have chk_ev: "\<forall>m n. RemoveLocalNode m n \<notin> set (fst chk)"
    by (simp add: chk_def remove_quorum_check_events)
  obtain w where w: "fst d = [Fanout stopPacemaker [node0], Fanout destroyCluster [node0]] @ w"
    and w_ev: "\<forall>m n. RemoveLocalNode m n \<notin> set w"
    using destroy_cluster_events[of env node0 "force_option env"] d_def by blast
  have in_m: "RemoveLocalNode my_node node \<in> set (fst m)" and c1: "snd chk = Completed"
    and c2: "snd d = Completed"
    using rm chk_ev w w_ev by (auto simp: eq fst_and_then split: if_splits)
  have "RemoveLocalNode my_node node \<in> set (fst members)"
    using in_m by (auto simp: m_def split: if_splits)
  then have a: "node = node0 \<and> my_node \<noteq> node0"
    using remove_from_members_events[of my_node node env node0] by (simp add: members_def)
  have "fst (cluster_node_remove env node0)
        = fst chk @ [Fanout stopPacemaker [node0], Fanout destroyCluster [node0]] @ (w @ fst m)"
    using c1 c2 w by (simp add: eq fst_and_then)
  then show "node = node0 \<and> my_node \<noteq> node0
     \<and> (\<exists>before after.
          fst (cluster_node_remove env node0)
            = before @ [Fanout stopPacemaker [node0], Fanout destroyCluster [node0]] @ after
          \<and> (\<forall>m n. RemoveLocalNode m n \<notin> set before))"
    using a chk_ev by blast
qed

theorem remove_stops_before_membership_update_witness:
  "cluster_node_remove (test_env Map.empty [''A'', ''B'', ''C''] (\<lambda>node. (0, ''quorate''))) ''B''
     = ([QuorumQuery ''B'', Fanout stopPacemaker [''B''], Fanout destroyCluster [''B''],
         RemoveLocalNode ''A'' ''B'', Print ''A: Corosync updated'',
         RemoveLocalNode ''C'' ''B'', Print ''C: Corosync updated'',
         ReloadCorosync, RunCmd [''crm_node'', ''--force'', ''-R'', ''B'']],
        Completed)
   \<and> (\<exists>before after.
          fst (cluster_node_remove
                 (test_env Map.empty [''A'', ''B'', ''C''] (\<lambda>node. (0, ''quorate''))) ''B'')
            = before @ [Fanout stopPacemaker [''B''], Fanout destroyCluster [''B'']] @ after
          \<and> (\<forall>m n. RemoveLocalNode m n \<notin> set before))"
proof -
  have run: "cluster_node_remove
       (test_env Map.empty [''A'', ''B'', ''C''] (\<lambda>node. (0, ''quorate''))) ''B''
     = ([QuorumQuery ''B'', Fanout stopPacemaker [''B''], Fanout destroyCluster [''B''],
         RemoveLocalNode ''A'' ''B'', Print ''A: Corosync updated'',
         RemoveLocalNode ''C'' ''B'', Print ''C: Corosync updated'',
         ReloadCorosync, RunCmd [''crm_node'', ''--force'', ''-R'', ''B'']],
        Completed)"
    by (simp add: test_env_def cluster_node_remove_def force_option_def remove_quorum_check_def
        parse_quorum_info_def destroy_cluster_def parallel_for_nodes_def and_then_def Let_def)
  have "RemoveLocalNode ''A'' ''B'' \<in> set (fst (cluster_node_remove
       (test_env Map.empty [''A'', ''B'', ''C''] (\<lambda>node. (0, ''quorate''))) ''B''))"
    by (simp add: run)
  then show ?thesis
    using remove_stops_before_membership_update[of "''A''" "''B''"
        "test_env Map.empty [''A'', ''B'', ''C''] (\<lambda>node. (0, ''quorate''))" "''B''"] run
    by blast
qed





subsection \<open>C6: how a wait ends\<close>



lemma add_to_members_conf:
  "snd (add_to_members env node0 node1 members conf) = None \<longleftrightarrow>
     conf = None \<and> (\<forall>my_node \<in> set members. fst (addLocalNode env my_node node0 node1) \<noteq> 0)"
  by (induction members arbitrary: conf) (auto simp: split_beta)

lemma add_to_members_pushes:
  "filter (\<lambda>e. case e of AddLocalNode m n0 n1 \<Rightarrow> True | _ \<Rightarrow> False)
     (fst (add_to_members env node0 node1 members conf))
   = map (\<lambda>my_node. AddLocalNode my_node node0 node1) members"
  by (induction members arbitrary: conf) (auto simp: split_beta)

lemma add_to_members_errors:
  "my_node \<in> set members \<Longrightarrow> fst (addLocalNode env my_node node0 node1) \<noteq> 0 \<Longrightarrow>
   Err (''unable to add '' @ node0 @ '' on '' @ my_node @ '' - ''
        @ strip (snd (addLocalNode env my_node node0 node1)))
     \<in> set (fst (add_to_members env node0 node1 members conf))"
  by (induction members arbitrary: conf) (auto simp: split_beta)

lemma send_pcsd_configs_facts:
  "snd (send_pcsd_configs env node0) \<noteq> Fatal ''Unable to update any nodes''"
  "hd (fst (send_pcsd_configs env node0)) = SendLocalConfigs [node0]"
  "fst (send_pcsd_configs env node0) \<noteq> []"
  "filter (\<lambda>e. case e of AddLocalNode m n0 n1 \<Rightarrow> True | _ \<Rightarrow> False)
     (fst (send_pcsd_configs env node0)) = []"
  by (auto simp: send_pcsd_configs_def split_beta Let_def split: option.splits)

lemma add_node_steps_facts:
  "snd (add_node_steps env node0 conf wait) \<noteq> Fatal ''Unable to update any nodes''"
  "filter (\<lambda>e. case e of AddLocalNode m n0 n1 \<Rightarrow> True | _ \<Rightarrow> False)
     (fst (add_node_steps env node0 conf wait)) = []"
  "(is_rhel6 env \<or> \<not> set_qdevice_net_certificates env conf)
   \<and> (wait \<longrightarrow> nodes_started env [node0]) \<Longrightarrow>
   snd (add_node_steps env node0 conf wait) = Completed"
  by (auto simp: add_node_steps_def snd_and_then fst_and_then)

lemma cluster_node_add_eq:
  "cluster_node_add env node0 node1 wait =
     (case snd (add_to_members env node0 node1 (getNodesFromCorosyncConf env) None) of
        None \<Rightarrow>
          (fst (add_to_members env node0 node1 (getNodesFromCorosyncConf env) None)
           @ [ReloadCorosync], Fatal ''Unable to update any nodes'')
      | Some conf \<Rightarrow>
          and_then
            (fst (add_to_members env node0 node1 (getNodesFromCorosyncConf env) None)
             @ [ReloadCorosync], Completed)
            (and_then (send_pcsd_configs env node0) (add_node_steps env node0 conf wait)))"
  by (simp add: cluster_node_add_def split_beta Let_def split: option.split)

subsection \<open>C3: adding a node needs one member that accepts\<close>

text \<open>
  C3, as amended. The add-node run asks every existing member, in order, to add the new
  node. It ends with the fatal error \<^verbatim>\<open>Unable to update any nodes\<close> if and only if no
  member accepted. If at least one member accepted, every member that refused is
  reported by a message that does not end the run, and the run goes on to send the
  pcsd configuration to the new node; it then completes when that step, the
  certificate step of a network quorum device and the requested wait succeed, each of
  which can still end the run.
\<close>

theorem add_node_push_acceptance:
  "(snd (cluster_node_add env node0 node1 wait) = Fatal ''Unable to update any nodes''
      \<longleftrightarrow> (\<forall>my_node \<in> set (getNodesFromCorosyncConf env).
             fst (addLocalNode env my_node node0 node1) \<noteq> 0))
   \<and> filter (\<lambda>e. case e of AddLocalNode m n0 n1 \<Rightarrow> True | _ \<Rightarrow> False)
        (fst (cluster_node_add env node0 node1 wait))
      = map (\<lambda>my_node. AddLocalNode my_node node0 node1) (getNodesFromCorosyncConf env)
   \<and> ((\<exists>my_node \<in> set (getNodesFromCorosyncConf env).
          fst (addLocalNode env my_node node0 node1) = 0) \<longrightarrow>
       (\<forall>my_node \<in> set (getNodesFromCorosyncConf env).
          fst (addLocalNode env my_node node0 node1) \<noteq> 0 \<longrightarrow>
          Err (''unable to add '' @ node0 @ '' on '' @ my_node @ '' - ''
               @ strip (snd (addLocalNode env my_node node0 node1)))
            \<in> set (fst (cluster_node_add env node0 node1 wait)))
       \<and> SendLocalConfigs [node0] \<in> set (fst (cluster_node_add env node0 node1 wait))
       \<and> (snd (send_pcsd_configs env node0) = Completed
            \<and> (is_rhel6 env \<or> (\<forall>conf. \<not> set_qdevice_net_certificates env conf))
            \<and> (wait \<longrightarrow> nodes_started env [node0]) \<longrightarrow>
          snd (cluster_node_add env node0 node1 wait) = Completed))"
proof (cases "snd (add_to_members env node0 node1 (getNodesFromCorosyncConf env) None)")
  case None
  then have all: "\<forall>my_node \<in> set (getNodesFromCorosyncConf env).
             fst (addLocalNode env my_node node0 node1) \<noteq> 0"
    using add_to_members_conf[of env node0 node1 "getNodesFromCorosyncConf env" None] by simp
  have "cluster_node_add env node0 node1 wait =
          (fst (add_to_members env node0 node1 (getNodesFromCorosyncConf env) None)
           @ [ReloadCorosync], Fatal ''Unable to update any nodes'')"
    using None by (simp add: cluster_node_add_eq)
  then show ?thesis using all by (simp add: add_to_members_pushes)
next
  case (Some conf)
  then have acc: "\<not> (\<forall>my_node \<in> set (getNodesFromCorosyncConf env).
             fst (addLocalNode env my_node node0 node1) \<noteq> 0)"
    using add_to_members_conf[of env node0 node1 "getNodesFromCorosyncConf env" None] by simp
  have eq: "cluster_node_add env node0 node1 wait =
          and_then
            (fst (add_to_members env node0 node1 (getNodesFromCorosyncConf env) None)
             @ [ReloadCorosync], Completed)
            (and_then (send_pcsd_configs env node0) (add_node_steps env node0 conf wait))"
    using Some by (simp add: cluster_node_add_eq)
  have out: "snd (cluster_node_add env node0 node1 wait) \<noteq> Fatal ''Unable to update any nodes''"
    using send_pcsd_configs_facts(1)[of env node0] add_node_steps_facts(1)[of env node0 conf wait]
    by (simp add: eq snd_and_then)
  have pushes: "filter (\<lambda>e. case e of AddLocalNode m n0 n1 \<Rightarrow> True | _ \<Rightarrow> False)
        (fst (cluster_node_add env node0 node1 wait))
      = map (\<lambda>my_node. AddLocalNode my_node node0 node1) (getNodesFromCorosyncConf env)"
    using send_pcsd_configs_facts(4)[of env node0] add_node_steps_facts(2)[of env node0 conf wait]
    by (simp add: eq fst_and_then add_to_members_pushes)
  have errs: "\<forall>my_node \<in> set (getNodesFromCorosyncConf env).
          fst (addLocalNode env my_node node0 node1) \<noteq> 0 \<longrightarrow>
          Err (''unable to add '' @ node0 @ '' on '' @ my_node @ '' - ''
               @ strip (snd (addLocalNode env my_node node0 node1)))
            \<in> set (fst (cluster_node_add env node0 node1 wait))"
    using add_to_members_errors[of _ "getNodesFromCorosyncConf env" env node0 node1 None]
    by (auto simp: eq fst_and_then)
  have "SendLocalConfigs [node0] \<in> set (fst (send_pcsd_configs env node0))"
    using send_pcsd_configs_facts(2,3)[of env node0] hd_in_set by metis
  then have next_step: "SendLocalConfigs [node0] \<in> set (fst (cluster_node_add env node0 node1 wait))"
    by (auto simp: eq fst_and_then)
  have finished: "snd (cluster_node_add env node0 node1 wait) = Completed"
    if "snd (send_pcsd_configs env node0) = Completed"
      and "is_rhel6 env \<or> (\<forall>conf. \<not> set_qdevice_net_certificates env conf)"
      and "wait \<longrightarrow> nodes_started env [node0]"
    using that add_node_steps_facts(3)[of env conf wait node0]
    by (auto simp: eq snd_and_then)
  show ?thesis using acc out pushes errs next_step finished by blast
qed

theorem add_node_push_acceptance_witness:
  "snd (cluster_node_add
          ((test_env Map.empty [''A'', ''B''] (\<lambda>node. (0, ''quorate'')))
             \<lparr> addLocalNode := (\<lambda>my_node node0 node1.
                  if my_node = ''A'' then (1, ''no route'') else (0, ''totem {}'')) \<rparr>)
          ''N'' None False) = Completed
   \<and> Err ''unable to add N on A - no route''
       \<in> set (fst (cluster_node_add
          ((test_env Map.empty [''A'', ''B''] (\<lambda>node. (0, ''quorate'')))
             \<lparr> addLocalNode := (\<lambda>my_node node0 node1.
                  if my_node = ''A'' then (1, ''no route'') else (0, ''totem {}'')) \<rparr>)
          ''N'' None False))
   \<and> snd (cluster_node_add
          ((test_env Map.empty [''A'', ''B''] (\<lambda>node. (0, ''quorate'')))
             \<lparr> addLocalNode := (\<lambda>my_node node0 node1. (1, ''no route'')) \<rparr>)
          ''N'' None False) = Fatal ''Unable to update any nodes''"
proof -
  let ?env = "(test_env Map.empty [''A'', ''B''] (\<lambda>node. (0, ''quorate'')))
             \<lparr> addLocalNode := (\<lambda>my_node node0 node1.
                  if my_node = ''A'' then (1, ''no route'') else (0, ''totem {}'')) \<rparr>"
  let ?fail = "(test_env Map.empty [''A'', ''B''] (\<lambda>node. (0, ''quorate'')))
             \<lparr> addLocalNode := (\<lambda>my_node node0 node1. (1, ''no route'')) \<rparr>"
  have m: "getNodesFromCorosyncConf ?env = [''A'', ''B'']"
    "getNodesFromCorosyncConf ?fail = [''A'', ''B'']"
    by (simp_all add: test_env_def)
  have a: "\<And>my_node. addLocalNode ?env my_node ''N'' None
             = (if my_node = ''A'' then (1, ''no route'') else (0, ''totem {}''))"
    "\<And>my_node. addLocalNode ?fail my_node ''N'' None = (1, ''no route'')"
    by (simp_all add: test_env_def)
  have p: "snd (send_pcsd_configs ?env ''N'') = Completed"
    by (simp add: test_env_def send_pcsd_configs_def)
  have q: "\<And>conf. \<not> set_qdevice_net_certificates ?env conf"
    by (simp add: test_env_def)
  have s: "strip ''no route'' = ''no route''"
    by (simp add: strip_def is_space_def)
  show ?thesis
    using add_node_push_acceptance[of ?env "''N''" None False]
      add_node_push_acceptance[of ?fail "''N''" None False] m a p q s
    by simp
qed

text \<open>
  The claim as first stated fails where both members accept the update and sending the
  pcsd configuration to the new node fails: the run is a fatal failure although a member
  accepted, and it does not continue to completion.
\<close>

theorem add_node_push_acceptance_counterexample:
  "fst (addLocalNode
          ((test_env Map.empty [''A'', ''B''] (\<lambda>node. (0, ''quorate'')))
             \<lparr> run_pcsdcli_send_local_configs :=
                 (\<lambda>nodes. (\<lparr> pcsd_status = ''error'', pcsd_data = [] \<rparr>, 1)) \<rparr>)
          ''A'' ''N'' None) = 0
   \<and> cluster_node_add
          ((test_env Map.empty [''A'', ''B''] (\<lambda>node. (0, ''quorate'')))
             \<lparr> run_pcsdcli_send_local_configs :=
                 (\<lambda>nodes. (\<lparr> pcsd_status = ''error'', pcsd_data = [] \<rparr>, 1)) \<rparr>)
          ''N'' None False
     = ([AddLocalNode ''A'' ''N'' None, Print ''A: Corosync updated'',
         AddLocalNode ''B'' ''N'' None, Print ''B: Corosync updated'',
         ReloadCorosync, SendLocalConfigs [''N'']],
        Fatal ''Unable to set pcsd configs'')"
  by (simp add: test_env_def cluster_node_add_def send_pcsd_configs_def and_then_def Let_def
      add_node_steps_def)

end
